theory Spec2Isabelle
  imports Complex_Main
begin

section \<open>JavaScript values\<close>

text \<open>
  The route handler and the search adapter work on untyped JSON: the request body, the
  replies of the inference backend and of the search provider, and the decoded tool
  arguments are all \<open>any\<close> at run time. The model therefore carries JavaScript values
  explicitly. A \<open>string\<close> is the sequence of code units of a JavaScript string, one
  \<open>char\<close> for each code unit: the model covers the code units below 256, which are
  all that the source's own literals use. A number is the value of a double, kept exact
  as a rational, with the three non-finite doubles apart. An object is the list
  of its own properties; a lookup takes the first binding of a key. \<open>JFn\<close> is a
  built-in function object: the only one the program can meet is the \<open>link\<close> method
  that every string inherits.
\<close>

datatype jsnum = NaN | NegInf | Fin rat | PosInf

datatype jv =
    JUndefined
  | JNull
  | JBool bool
  | JNum jsnum
  | JStr string
  | JArr "jv list"
  | JObj "(string \<times> jv) list"
  | JFn string

datatype error =
    TypeError
  | SyntaxError
  | FetchError
  | UpstreamError nat
  | SerperError nat

text \<open>\<open>nullish v\<close> is \<open>v === undefined || v === null\<close>; \<open>nullish_or a b\<close> is \<open>a ?? b\<close>.\<close>

definition nullish :: "jv \<Rightarrow> bool" where
  "nullish v = (v = JUndefined \<or> v = JNull)"

definition nullish_or :: "jv \<Rightarrow> jv \<Rightarrow> jv" where
  "nullish_or a b = (if nullish a then b else a)"

text \<open>ToBoolean, as used by \<open>!x\<close>, \<open>a && b\<close> and \<open>if (x)\<close>.\<close>

fun truthy :: "jv \<Rightarrow> bool" where
  "truthy JUndefined = False"
| "truthy JNull = False"
| "truthy (JBool b) = b"
| "truthy (JNum n) = (n \<noteq> NaN \<and> n \<noteq> Fin 0)"
| "truthy (JStr s) = (s \<noteq> [])"
| "truthy (JArr xs) = True"
| "truthy (JObj kvs) = True"
| "truthy (JFn f) = True"

text \<open>
  \<open>prop_of v k\<close> is the property read \<open>v.k\<close> on a value that is neither \<open>undefined\<close>
  nor \<open>null\<close>, for the property names this program reads (\<open>choices\<close>, \<open>message\<close>,
  \<open>content\<close>, \<open>tool_calls\<close>, \<open>type\<close>, \<open>function\<close>, \<open>name\<close>, \<open>arguments\<close>,
  \<open>id\<close>, \<open>query\<close>, \<open>max_results\<close>, \<open>messages\<close>, \<open>model\<close>, \<open>organic\<close>,
  \<open>title\<close>, \<open>link\<close>, \<open>url\<close>, \<open>snippet\<close>, \<open>description\<close>): of these, only
  \<open>link\<close> on a string and \<open>name\<close> on a function are inherited from a prototype.
  \<open>get_prop\<close> is the plain read, which throws a TypeError on \<open>undefined\<close> and
  \<open>null\<close>; \<open>opt_prop\<close> is the optional chain \<open>v?.k\<close>.
\<close>

fun prop_of :: "jv \<Rightarrow> string \<Rightarrow> jv" where
  "prop_of (JObj kvs) k = (case map_of kvs k of None \<Rightarrow> JUndefined | Some x \<Rightarrow> x)"
| "prop_of (JStr s) k = (if k = ''link'' then JFn ''link'' else JUndefined)"
| "prop_of (JFn f) k = (if k = ''name'' then JStr f else JUndefined)"
| "prop_of v k = JUndefined"

definition get_prop :: "jv \<Rightarrow> string \<Rightarrow> error + jv" where
  "get_prop v k = (if nullish v then Inl TypeError else Inr (prop_of v k))"

definition opt_prop :: "jv \<Rightarrow> string \<Rightarrow> jv" where
  "opt_prop v k = (if nullish v then JUndefined else prop_of v k)"

text \<open>\<open>opt_index0 v\<close> is \<open>v?.[0]\<close>.\<close>

fun opt_index0 :: "jv \<Rightarrow> jv" where
  "opt_index0 (JArr xs) = (case xs of [] \<Rightarrow> JUndefined | x # _ \<Rightarrow> x)"
| "opt_index0 (JStr s) = (case s of [] \<Rightarrow> JUndefined | c # _ \<Rightarrow> JStr [c])"
| "opt_index0 (JObj kvs) = (case map_of kvs ''0'' of None \<Rightarrow> JUndefined | Some x \<Rightarrow> x)"
| "opt_index0 v = JUndefined"

text \<open>
  The spread \<open>...v\<close> inside an array literal: an array gives its elements, a string its
  characters, and any other value is not iterable.
\<close>

fun spread :: "jv \<Rightarrow> error + jv list" where
  "spread (JArr xs) = Inr xs"
| "spread (JStr s) = Inr (map (\<lambda>c. JStr [c]) s)"
| "spread v = Inl TypeError"

text \<open>Numbers: the order of the doubles, \<open>Math.max\<close> and \<open>Math.min\<close> on two numbers.\<close>

fun num_less :: "jsnum \<Rightarrow> jsnum \<Rightarrow> bool" where
  "num_less NaN b = False"
| "num_less a NaN = False"
| "num_less PosInf b = False"
| "num_less a NegInf = False"
| "num_less NegInf b = True"
| "num_less a PosInf = True"
| "num_less (Fin x) (Fin y) = (x < y)"

definition math_max :: "jsnum \<Rightarrow> jsnum \<Rightarrow> jsnum" where
  "math_max a b = (if a = NaN \<or> b = NaN then NaN else if num_less a b then b else a)"

definition math_min :: "jsnum \<Rightarrow> jsnum \<Rightarrow> jsnum" where
  "math_min a b = (if a = NaN \<or> b = NaN then NaN else if num_less b a then b else a)"

text \<open>
  \<open>slice0 xs n\<close> is \<open>xs.slice(0, n)\<close>: the end index is \<open>n\<close> truncated towards zero
  (\<open>NaN\<close> counts as 0), a negative one counts from the end.
\<close>

definition slice0 :: "'a list \<Rightarrow> jsnum \<Rightarrow> 'a list" where
  "slice0 xs n =
     (case n of
        NaN \<Rightarrow> []
      | NegInf \<Rightarrow> []
      | PosInf \<Rightarrow> xs
      | Fin r \<Rightarrow>
          (let k = (if 0 \<le> r then \<lfloor>r\<rfloor> else \<lceil>r\<rceil>)
           in if k < 0 then take (nat (int (length xs) + k)) xs else take (nat k) xs))"

text \<open>
  The built-ins of the JavaScript runtime that the program calls and that are not its own
  code are parameters of the model: \<open>JSON.parse\<close> (\<open>None\<close> when it throws a
  SyntaxError), \<open>JSON.stringify\<close>, the conversion of a string to a number, and the
  texts of a number and of a function. None of the last four throws on the values that
  the program hands to them.
\<close>

record runtime =
  json_parse :: "string \<Rightarrow> jv option"
  json_stringify :: "jv \<Rightarrow> string"
  to_num :: "string \<Rightarrow> jsnum"
  num_str :: "jsnum \<Rightarrow> string"
  fn_str :: "string \<Rightarrow> string"

text \<open>
  \<open>String(v)\<close>, also applied by \<open>JSON.parse\<close> to its argument. The conversion of an
  object asks the object for its \<open>toString\<close>: a parsed object that has a property of
  that name hides the inherited method behind a value that cannot be called, its
  inherited \<open>valueOf\<close> returns the object itself, and the conversion throws a
  TypeError; any other parsed object gives \<open>[object Object]\<close>. An array gives the
  texts of its elements, joined by commas, with the empty text for \<open>undefined\<close> and
  \<open>null\<close>; the conversion of an element may throw.
\<close>

fun js_String :: "runtime \<Rightarrow> jv \<Rightarrow> error + string"
  and js_join :: "runtime \<Rightarrow> jv list \<Rightarrow> error + string" where
  "js_String rt (JStr s) = Inr s"
| "js_String rt JUndefined = Inr ''undefined''"
| "js_String rt JNull = Inr ''null''"
| "js_String rt (JBool b) = Inr (if b then ''true'' else ''false'')"
| "js_String rt (JNum n) = Inr (num_str rt n)"
| "js_String rt (JFn f) = Inr (fn_str rt f)"
| "js_String rt (JObj kvs) =
     (case map_of kvs ''toString'' of
        None \<Rightarrow> Inr ''[object Object]''
      | Some v \<Rightarrow> Inl TypeError)"
| "js_String rt (JArr xs) = js_join rt xs"
| "js_join rt [] = Inr []"
| "js_join rt (x # xs) =
     (case (if x = JUndefined \<or> x = JNull then Inr [] else js_String rt x) of
        Inl e \<Rightarrow> Inl e
      | Inr s \<Rightarrow>
          (if xs = [] then Inr s
           else (case js_join rt xs of Inl e \<Rightarrow> Inl e | Inr t \<Rightarrow> Inr (s @ '','' @ t))))"

text \<open>
  ToNumber, as applied by \<open>Math.max\<close> to its arguments. An array or an object is
  converted to its text first, which may throw, and the text to a number.
\<close>

fun to_number :: "runtime \<Rightarrow> jv \<Rightarrow> error + jsnum" where
  "to_number rt JUndefined = Inr NaN"
| "to_number rt JNull = Inr (Fin 0)"
| "to_number rt (JBool b) = Inr (if b then Fin 1 else Fin 0)"
| "to_number rt (JNum n) = Inr n"
| "to_number rt (JFn f) = Inr NaN"
| "to_number rt (JStr s) = Inr (to_num rt s)"
| "to_number rt v = (case js_String rt v of Inl e \<Rightarrow> Inl e | Inr s \<Rightarrow> Inr (to_num rt s))"

section \<open>Outbound calls\<close>

text \<open>
  Every \<open>fetch\<close> of a turn is recorded in a trace. The outside world answers a request
  as a function of the number of calls made before it and of the request, so that two
  equal requests may be answered differently. A reply is either no reply at all (the
  fetch rejects: the server is unreachable or the timeout signal fires) or a status with
  the body, \<open>None\<close> when the body is not JSON. The request is recorded by the value that
  the program hands to \<open>JSON.stringify\<close> for the body.
\<close>

datatype request = ChatReq jv | SerperReq jv

datatype reply = NetFail | Reply nat "jv option"

type_synonym trace = "request list"

type_synonym world = "nat \<Rightarrow> request \<Rightarrow> reply"

text \<open>\<open>res.ok\<close>: the status is in the range 200 to 299.\<close>

definition http_ok :: "nat \<Rightarrow> bool" where
  "http_ok st = (200 \<le> st \<and> st \<le> 299)"

fun is_chat :: "request \<Rightarrow> bool" where
  "is_chat (ChatReq p) = True"
| "is_chat (SerperReq p) = False"

fun is_serper :: "request \<Rightarrow> bool" where
  "is_serper (ChatReq p) = False"
| "is_serper (SerperReq p) = True"

section \<open>The search gateway (\<open>src/lib/serper.ts\<close>)\<close>

text \<open>
  The gateway object is built when the module is loaded, and the constructor throws when
  the access key or the base address is missing; the model starts from a loaded module,
  so the configuration is present. \<open>search\<close> posts \<open>{q, num}\<close>, throws on a rejected
  fetch, on a status outside 200..299 and on a body that is not JSON, and maps the first
  \<open>maxResults\<close> organic results to \<open>{title, url, snippet}\<close>.
\<close>

fun map_result :: "('a \<Rightarrow> error + 'b) \<Rightarrow> 'a list \<Rightarrow> error + 'b list" where
  "map_result f [] = Inr []"
| "map_result f (x # xs) =
     (case f x of
        Inl e \<Rightarrow> Inl e
      | Inr y \<Rightarrow> (case map_result f xs of Inl e \<Rightarrow> Inl e | Inr ys \<Rightarrow> Inr (y # ys)))"

definition serper_item :: "jv \<Rightarrow> error + jv" where
  "serper_item item =
     (if nullish item then Inl TypeError
      else Inr (JObj
        [(''title'', nullish_or (prop_of item ''title'') (JStr '''')),
         (''url'', nullish_or (prop_of item ''link'') (nullish_or (prop_of item ''url'') (JStr ''''))),
         (''snippet'',
            nullish_or (prop_of item ''snippet'')
              (nullish_or (prop_of item ''description'') (JStr '''')))]))"

definition search :: "world \<Rightarrow> jv \<Rightarrow> jsnum \<Rightarrow> trace \<Rightarrow> (error + jv list) \<times> trace" where
  "search w query maxResults tr =
     (let payload = JObj [(''q'', query), (''num'', JNum maxResults)];
          tr' = tr @ [SerperReq payload]
      in case w (length tr) (SerperReq payload) of
           NetFail \<Rightarrow> (Inl FetchError, tr')
         | Reply st body \<Rightarrow>
             if \<not> http_ok st then (Inl (SerperError st), tr')
             else (case body of
                     None \<Rightarrow> (Inl SyntaxError, tr')
                   | Some data \<Rightarrow>
                       (case get_prop data ''organic'' of
                          Inl e \<Rightarrow> (Inl e, tr')
                        | Inr organic \<Rightarrow>
                            (case nullish_or organic (JArr []) of
                               JArr items \<Rightarrow> (map_result serper_item (slice0 items maxResults), tr')
                             | _ \<Rightarrow> (Inl TypeError, tr')))))"

section \<open>The search tool adapter (\<open>src/unnamed/part_000\<close>)\<close>

text \<open>
  The module that the route handler imports as \<open>@/lib/webSearchTool\<close>. Its constants
  are read from the environment when the module is loaded; the model takes their defaults.
  \<open>SEARCH_MAX_RESULTS\<close> (default 3) is declared, and no code of the module reads it.
\<close>

definition SEARCH_MAX_CHARS :: jsnum where
  "SEARCH_MAX_CHARS = Fin 600"

definition SERPER_MAX_RESULTS :: jsnum where
  "SERPER_MAX_RESULTS = Fin 5"

text \<open>The helper \<open>truncate(text, max)\<close> of the adapter; the budget is a number.\<close>

definition truncate :: "string \<Rightarrow> jsnum \<Rightarrow> string" where
  "truncate text mx =
     (if text = [] then []
      else if num_less mx (Fin (of_nat (length text))) then slice0 text mx @ ''...''
      else text)"

definition enriched_item :: "jv \<Rightarrow> error + jv" where
  "enriched_item r =
     (if nullish r then Inl TypeError
      else Inr (JObj
        [(''title'', nullish_or (prop_of r ''title'') (JStr '''')),
         (''url'', nullish_or (prop_of r ''link'') (nullish_or (prop_of r ''url'') (JStr ''''))),
         (''snippet'',
            nullish_or (prop_of r ''snippet'')
              (nullish_or (prop_of r ''description'') (JStr '''')))]))"

definition clamp_limit :: "runtime \<Rightarrow> jv \<Rightarrow> error + jsnum" where
  "clamp_limit rt maxResults =
     (case to_number rt maxResults of
        Inl e \<Rightarrow> Inl e
      | Inr n \<Rightarrow> Inr (math_min (math_max n (Fin 1)) SERPER_MAX_RESULTS))"

text \<open>
  \<open>clamp_limit\<close> is the local \<open>limit\<close> of \<open>runWebSearch\<close>; when the conversion
  of \<open>maxResults\<close> to a number throws, the gateway is not called. The results of the
  gateway are mapped to \<open>{title, url, snippet}\<close> once more, field by field.
\<close>

definition runWebSearch ::
  "runtime \<Rightarrow> world \<Rightarrow> jv \<Rightarrow> jv \<Rightarrow> trace \<Rightarrow> (error + jv) \<times> trace" where
  "runWebSearch rt w query maxResults tr =
     (case clamp_limit rt maxResults of
        Inl e \<Rightarrow> (Inl e, tr)
      | Inr limit \<Rightarrow>
          (case search w query limit tr of
             (Inl e, tr') \<Rightarrow> (Inl e, tr')
           | (Inr results, tr') \<Rightarrow>
               (case map_result enriched_item results of
                  Inl e \<Rightarrow> (Inl e, tr')
                | Inr enriched \<Rightarrow>
                    (Inr (JObj [(''query'', query), (''results'', JArr enriched)]), tr'))))"

section \<open>The orchestrator (\<open>src/app/api/chat/route.ts\<close>)\<close>

text \<open>
  The file holds the handler in two versions; the model is of the second one (lines 68 to
  307), which calls the tool and has two system messages.
\<close>

subsection \<open>Constants\<close>

text \<open>The contents of the two system messages, code unit by code unit.\<close>

definition SYSTEM_PROMPT :: string where
  \<open>SYSTEM_PROMPT =
     ''Voc'' @ [CHR 0xEA] @ '' '' @ [CHR 0xE9] @
     '' um assistente extremamente direto, objetivo e factual.\<newline>'' @ ''\<newline>'' @
     ''Voc'' @ [CHR 0xEA] @ '' tem acesso a ferramentas (functions).  \<newline>'' @
     ''Quando a pergunta do usu'' @ [CHR 0xE1] @
     ''rio envolver fatos reais, tempo, clima, localiza'' @ [CHR 0xE7] @ [CHR 0xE3] @
     ''o, datas, eventos atualizados, estat'' @ [CHR 0xED] @
     ''sticas ou qualquer dado que possa mudar ao longo do tempo, voc'' @ [CHR 0xEA] @
     '' DEVE usar a ferramenta apropriada antes de responder.\<newline>'' @ ''\<newline>'' @
     ''Ferramenta dispon'' @ [CHR 0xED] @ ''vel:\<newline>'' @
     ''- web_search(query, max_results): busca na web e retorna dados recentes.'' @
     ''\<newline>'' @ ''\<newline>'' @ ''Regras obrigat'' @ [CHR 0xF3] @
     ''rias (siga SEMPRE):\<newline>'' @ ''1. Se a pergunta envolver clima, previs'' @
     [CHR 0xE3] @ ''o do tempo, resultados atuais, not'' @ [CHR 0xED] @ ''cias, valores num'' @
     [CHR 0xE9] @ ''ricos, estat'' @ [CHR 0xED] @ ''sticas, datas, hor'' @ [CHR 0xE1] @
     ''rios, pre'' @ [CHR 0xE7] @ ''os, situa'' @ [CHR 0xE7] @ [CHR 0xF5] @ ''es espec'' @
     [CHR 0xED] @ ''ficas, voc'' @ [CHR 0xEA] @ '' DEVE usar web_search.\<newline>'' @
     ''2. Quando decidir usar a ferramenta, retorne SOMENTE o tool_call no form'' @
     ''ato pedido. N'' @ [CHR 0xE3] @ ''o escreva mais nada.\<newline>'' @ ''3. Ap'' @
     [CHR 0xF3] @ ''s receber a resposta da ferramenta (role=tool), elabore a resposta final'' @
     '' de forma breve, clara e objetiva.\<newline>'' @
     ''4. Nunca invente fatos. Nunca estimule, chute ou responda com suposi'' @ [CHR 0xE7] @
     [CHR 0xF5] @ ''es.  \<newline>'' @ ''   Se voc'' @ [CHR 0xEA] @ '' n'' @ [CHR 0xE3] @
     ''o sabe, ou n'' @ [CHR 0xE3] @ ''o tem certeza, use web_search.\<newline>'' @
     ''5. Se o usu'' @ [CHR 0xE1] @ ''rio apenas pedir opini'' @ [CHR 0xE3] @ ''o, an'' @
     [CHR 0xE1] @ ''lise ou algo interno ao modelo, responda diretamente.\<newline>'' @
     ''6. Mantenha respostas 100% curtas, diretas e sem divaga'' @ [CHR 0xE7] @ [CHR 0xF5] @
     ''es.\<newline>'' @ ''7. Se utilizou a ferramenta, disponibilize as URLs quando dispon'' @
     [CHR 0xED] @ ''veis.\<newline>'' @ ''8. Quando mostrar c'' @ [CHR 0xF3] @
     ''digo, use sempre blocos Markdown com crase tripla ('' @ [CHR 0x60] @ [CHR 0x60] @
     [CHR 0x60] @ '') indicando a linguagem (por exemplo, '' @ [CHR 0x60] @ [CHR 0x60] @
     [CHR 0x60] @ ''ts'' @ [CHR 0x60] @ [CHR 0x60] @ [CHR 0x60] @ '', '' @ [CHR 0x60] @
     [CHR 0x60] @ [CHR 0x60] @ ''js'' @ [CHR 0x60] @ [CHR 0x60] @ [CHR 0x60] @ '', '' @
     [CHR 0x60] @ [CHR 0x60] @ [CHR 0x60] @ ''bash'' @ [CHR 0x60] @ [CHR 0x60] @ [CHR 0x60] @
     '') e mantenha os trechos o mais curtos poss'' @ [CHR 0xED] @ ''vel.\<newline>''\<close>

definition SECOND_SYSTEM_PROMPT :: string where
  \<open>SECOND_SYSTEM_PROMPT =
     ''Voc'' @ [CHR 0xEA] @ '' j'' @ [CHR 0xE1] @
     '' recebeu os resultados de uma ferramenta de busca (web_search).\<newline>'' @
     ''\<newline>'' @ ''Use SOMENTE essas informa'' @ [CHR 0xE7] @ [CHR 0xF5] @
     ''es, mais o seu conhecimento pr'' @ [CHR 0xF3] @ ''prio, para responder ao usu'' @
     [CHR 0xE1] @ ''rio.\<newline>'' @ ''\<newline>'' @ ''Regras obrigat'' @ [CHR 0xF3] @
     ''rias:\<newline>'' @ ''1. N'' @ [CHR 0xC3] @
     ''O chame nem sugira novas ferramentas.\<newline>'' @ ''2. N'' @ [CHR 0xC3] @
     ''O retorne tool_call, JSON ou c'' @ [CHR 0xF3] @
     ''digo. Responda em linguagem natural.\<newline>'' @
     ''3. Seja breve, direto e factual.\<newline>'' @
     ''4. Resuma os principais dados e, quando poss'' @ [CHR 0xED] @
     ''vel, inclua as URLs usadas.\<newline>'' @
     ''5. Se precisar mencionar comandos ou pequenos trechos de c'' @ [CHR 0xF3] @
     ''digo, use blocos Markdown com crase tripla ('' @ [CHR 0x60] @ [CHR 0x60] @ [CHR 0x60] @
     '') e indique a linguagem (por exemplo, '' @ [CHR 0x60] @ [CHR 0x60] @ [CHR 0x60] @ ''ts'' @
     [CHR 0x60] @ [CHR 0x60] @ [CHR 0x60] @ '', '' @ [CHR 0x60] @ [CHR 0x60] @ [CHR 0x60] @
     ''js'' @ [CHR 0x60] @ [CHR 0x60] @ [CHR 0x60] @ '', '' @ [CHR 0x60] @ [CHR 0x60] @
     [CHR 0x60] @ ''bash'' @ [CHR 0x60] @ [CHR 0x60] @ [CHR 0x60] @ '').''\<close>

definition SYSTEM_MESSAGE :: jv where
  "SYSTEM_MESSAGE = JObj [(''role'', JStr ''system''), (''content'', JStr SYSTEM_PROMPT)]"

definition SECOND_SYSTEM_MESSAGE :: jv where
  "SECOND_SYSTEM_MESSAGE =
     JObj [(''role'', JStr ''system''), (''content'', JStr SECOND_SYSTEM_PROMPT)]"

definition WEB_SEARCH_TOOL :: jv where
  "WEB_SEARCH_TOOL =
     JObj [(''type'', JStr ''function''),
           (''function'', JObj
              [(''name'', JStr ''web_search''),
               (''description'', JStr ''Buscar rapidamente na web e retornar trechos curtos.''),
               (''parameters'', JObj
                  [(''type'', JStr ''object''),
                   (''properties'', JObj
                      [(''query'', JObj [(''type'', JStr ''string'')]),
                       (''max_results'', JObj
                          [(''type'', JStr ''integer''),
                           (''minimum'', JNum (Fin 1)),
                           (''maximum'', JNum (Fin 5)),
                           (''default'', JNum (Fin 3))])]),
                   (''required'', JArr [JStr ''query''])])])]"

definition DEFAULT_MODEL :: jv where
  "DEFAULT_MODEL = JStr ''Ministral-3-8B-Reasoning-2512''"

subsection \<open>\<open>callLocalChat\<close>\<close>

text \<open>
  One call of the inference backend: a rejected fetch and a status outside 200..299
  throw; a body that is not JSON is caught and read as \<open>null\<close>.
\<close>

definition json_or_null :: "jv option \<Rightarrow> jv" where
  "json_or_null body = (case body of None \<Rightarrow> JNull | Some v \<Rightarrow> v)"

definition callLocalChat :: "world \<Rightarrow> jv \<Rightarrow> trace \<Rightarrow> (error + jv) \<times> trace" where
  "callLocalChat w payload tr =
     (let tr' = tr @ [ChatReq payload]
      in case w (length tr) (ChatReq payload) of
           NetFail \<Rightarrow> (Inl FetchError, tr')
         | Reply st body \<Rightarrow>
             if \<not> http_ok st then (Inl (UpstreamError st), tr')
             else (Inr (json_or_null body), tr'))"

subsection \<open>The tool loop\<close>

text \<open>
  The body of \<open>for (const toolCall of toolCalls)\<close>, with the list of tool messages
  pushed so far and the trace passed along. \<open>tool_name\<close>, \<open>raw_args\<close> and
  \<open>parsed_args\<close> are the loop's locals \<open>name\<close>, \<open>rawArgs\<close> and \<open>parsedArgs\<close>.
  \<open>decode_args\<close> is the \<open>try\<close> block, \<open>JSON.parse(rawArgs)\<close>, with \<open>None\<close>
  when it throws: in the conversion of \<open>rawArgs\<close> to a text or in the parser.
\<close>

definition tool_name :: "jv \<Rightarrow> jv" where
  "tool_name toolCall = opt_prop (prop_of toolCall ''function'') ''name''"

definition raw_args :: "jv \<Rightarrow> jv" where
  "raw_args toolCall =
     nullish_or (opt_prop (prop_of toolCall ''function'') ''arguments'') (JStr ''{}'')"

definition decode_args :: "runtime \<Rightarrow> jv \<Rightarrow> jv option" where
  "decode_args rt toolCall =
     (case js_String rt (raw_args toolCall) of
        Inl e \<Rightarrow> None
      | Inr text \<Rightarrow> json_parse rt text)"

definition parsed_args :: "runtime \<Rightarrow> jv \<Rightarrow> jv" where
  "parsed_args rt toolCall =
     (case decode_args rt toolCall of
        None \<Rightarrow> JObj [(''query'', JStr '''')]
      | Some v \<Rightarrow> v)"

definition tool_message :: "runtime \<Rightarrow> jv \<Rightarrow> jv \<Rightarrow> jv" where
  "tool_message rt toolCall result =
     JObj [(''role'', JStr ''tool''),
           (''tool_call_id'', prop_of toolCall ''id''),
           (''name'', tool_name toolCall),
           (''content'', JStr (json_stringify rt result))]"

fun exec_tools ::
  "runtime \<Rightarrow> world \<Rightarrow> jv list \<Rightarrow> jv list \<Rightarrow> trace \<Rightarrow> (error + jv list) \<times> trace" where
  "exec_tools rt w [] toolMessages tr = (Inr toolMessages, tr)"
| "exec_tools rt w (toolCall # rest) toolMessages tr =
     (if \<not> truthy toolCall \<or> prop_of toolCall ''type'' \<noteq> JStr ''function''
      then exec_tools rt w rest toolMessages tr
      else if tool_name toolCall \<noteq> JStr ''web_search''
      then exec_tools rt w rest toolMessages tr
      else (case get_prop (parsed_args rt toolCall) ''query'' of
              Inl e \<Rightarrow> (Inl e, tr)
            | Inr query \<Rightarrow>
                if \<not> truthy query then exec_tools rt w rest toolMessages tr
                else (case runWebSearch rt w query
                             (nullish_or (prop_of (parsed_args rt toolCall) ''max_results'')
                                (JNum (Fin 3))) tr of
                        (Inl e, tr') \<Rightarrow> (Inl e, tr')
                      | (Inr result, tr') \<Rightarrow>
                          exec_tools rt w rest
                            (toolMessages @ [tool_message rt toolCall result]) tr')))"

subsection \<open>The two phases\<close>

definition first_payload :: "jv \<Rightarrow> jv list \<Rightarrow> jv" where
  "first_payload model msgs =
     JObj [(''model'', model),
           (''messages'', JArr (SYSTEM_MESSAGE # msgs)),
           (''tools'', JArr [WEB_SEARCH_TOOL]),
           (''tool_choice'', JStr ''auto''),
           (''stream'', JBool False)]"

definition second_messages :: "jv list \<Rightarrow> jv list \<Rightarrow> jv list" where
  "second_messages msgs toolMessages = SECOND_SYSTEM_MESSAGE # msgs @ toolMessages"

definition second_payload :: "jv \<Rightarrow> jv list \<Rightarrow> jv list \<Rightarrow> jv" where
  "second_payload model msgs toolMessages =
     JObj [(''model'', model),
           (''messages'', JArr (second_messages msgs toolMessages)),
           (''tool_choice'', JStr ''none'')]"

text \<open>
  \<open>response?.choices?.[0]?.message ?? {}\<close>, the tool calls of the first message
  (\<open>Array.isArray(rawToolCalls) ? rawToolCalls : []\<close>) and
  \<open>String(message.content ?? "")\<close>, which throws when the conversion does.
\<close>

definition message_of :: "jv \<Rightarrow> jv" where
  "message_of response =
     nullish_or (opt_prop (opt_index0 (opt_prop response ''choices'')) ''message'') (JObj [])"

definition tool_calls_of :: "jv \<Rightarrow> jv list" where
  "tool_calls_of firstMessage =
     (case prop_of firstMessage ''tool_calls'' of JArr xs \<Rightarrow> xs | _ \<Rightarrow> [])"

definition content_of :: "runtime \<Rightarrow> jv \<Rightarrow> error + string" where
  "content_of rt message = js_String rt (nullish_or (prop_of message ''content'') (JStr ''''))"

text \<open>
  The body of the \<open>try\<close> block up to the final content. The client conversation is
  spread into the first message list before the first call.
\<close>

definition turn ::
  "runtime \<Rightarrow> world \<Rightarrow> jv \<Rightarrow> jv \<Rightarrow> trace \<Rightarrow> (error + string) \<times> trace" where
  "turn rt w messages model tr =
     (case spread messages of
        Inl e \<Rightarrow> (Inl e, tr)
      | Inr msgs \<Rightarrow>
          (case callLocalChat w (first_payload model msgs) tr of
             (Inl e, tr1) \<Rightarrow> (Inl e, tr1)
           | (Inr firstResponse, tr1) \<Rightarrow>
               (let firstMessage = message_of firstResponse;
                    toolCalls = tool_calls_of firstMessage
                in if length toolCalls = 0 then (content_of rt firstMessage, tr1)
                   else (case exec_tools rt w toolCalls [] tr1 of
                           (Inl e, tr2) \<Rightarrow> (Inl e, tr2)
                         | (Inr toolMessages, tr2) \<Rightarrow>
                             (case callLocalChat w (second_payload model msgs toolMessages) tr2 of
                                (Inl e, tr3) \<Rightarrow> (Inl e, tr3)
                              | (Inr secondResponse, tr3) \<Rightarrow>
                                  (content_of rt (message_of secondResponse), tr3))))))"

subsection \<open>The streaming response encoder\<close>

text \<open>
  The controller of the \<open>ReadableStream\<close>: the chunks enqueued so far and whether the
  stream has been closed. Enqueueing on a closed controller throws. A chunk is recorded
  as the string handed to the text encoder.
\<close>

datatype controller = Controller (chunks: "string list") (closed: bool)

definition enqueue :: "string \<Rightarrow> controller \<Rightarrow> error + controller" where
  "enqueue data c = (if closed c then Inl TypeError else Inr (Controller (chunks c @ [data]) (closed c)))"

definition close :: "controller \<Rightarrow> error + controller" where
  "close c = (if closed c then Inl TypeError else Inr (Controller (chunks c) True))"

definition DONE_FRAME :: string where
  "DONE_FRAME = ''data: [DONE]\<newline>\<newline>''"

definition data_frame :: "runtime \<Rightarrow> string \<Rightarrow> string" where
  "data_frame rt finalContent =
     ''data: '' @
     json_stringify rt
       (JObj [(''choices'', JArr [JObj [(''delta'', JObj [(''content'', JStr finalContent)])]])])
     @ ''\<newline>\<newline>''"

definition start :: "runtime \<Rightarrow> string \<Rightarrow> controller \<Rightarrow> error + controller" where
  "start rt finalContent c =
     (case (if finalContent \<noteq> [] then enqueue (data_frame rt finalContent) c else Inr c) of
        Inl e \<Rightarrow> Inl e
      | Inr c1 \<Rightarrow> (case enqueue DONE_FRAME c1 of Inl e \<Rightarrow> Inl e | Inr c2 \<Rightarrow> close c2))"

subsection \<open>\<open>POST\<close>\<close>

datatype response =
    StreamResponse nat "(string \<times> string) list" "error + controller"
  | JsonResponse nat "(string \<times> string) list" string

definition stream_response :: "runtime \<Rightarrow> string \<Rightarrow> response" where
  "stream_response rt finalContent =
     StreamResponse 200
       [(''Content-Type'', ''text/event-stream; charset=utf-8''),
        (''Cache-Control'', ''no-cache''),
        (''Connection'', ''keep-alive'')]
       (start rt finalContent (Controller [] False))"

definition error_response :: "runtime \<Rightarrow> response" where
  "error_response rt =
     JsonResponse 500 [(''Content-Type'', ''application/json'')]
       (json_stringify rt (JObj [(''error'', JStr ''Failed to call local chat backend'')]))"

text \<open>
  The handler. The request body is \<open>None\<close> when it is not JSON (\<open>request.json()\<close>
  rejects and the handler reads \<open>null\<close>). \<open>request_messages\<close> and
  \<open>request_model\<close> are the handler's locals \<open>messages\<close> and \<open>model\<close>.
\<close>

definition request_messages :: "jv option \<Rightarrow> jv" where
  "request_messages request = nullish_or (opt_prop (json_or_null request) ''messages'') (JArr [])"

definition request_model :: "jv option \<Rightarrow> jv" where
  "request_model request = nullish_or (opt_prop (json_or_null request) ''model'') DEFAULT_MODEL"

definition POST :: "runtime \<Rightarrow> world \<Rightarrow> jv option \<Rightarrow> response \<times> trace" where
  "POST rt w request =
     (case turn rt w (request_messages request) (request_model request) [] of
        (Inl e, tr) \<Rightarrow> (error_response rt, tr)
      | (Inr finalContent, tr) \<Rightarrow> (stream_response rt finalContent, tr))"

section \<open>Vocabulary of the properties\<close>

text \<open>
  An outbound call has failed when the fetch was rejected or the status is outside
  200..299, and, for the search provider only, when the body is not JSON.
  \<open>ok_from w n rqs\<close>: the requests \<open>rqs\<close>, made as calls number \<open>n\<close>,
  \<open>n + 1\<close>, ..., were all answered without failure.
\<close>

definition call_failed :: "request \<Rightarrow> reply \<Rightarrow> bool" where
  "call_failed rq rp =
     (case rp of NetFail \<Rightarrow> True | Reply st body \<Rightarrow> \<not> http_ok st \<or> (is_serper rq \<and> body = None))"

fun ok_from :: "world \<Rightarrow> nat \<Rightarrow> trace \<Rightarrow> bool" where
  "ok_from w n [] = True"
| "ok_from w n (rq # rqs) = (\<not> call_failed rq (w n rq) \<and> ok_from w (Suc n) rqs)"

text \<open>
  A tool call that reaches the argument check of the loop: a truthy entry of type
  \<open>"function"\<close> whose function name is \<open>"web_search"\<close>. The argument that the loop
  passes to the adapter as \<open>maxResults\<close> is \<open>max_results_arg\<close>.
\<close>

definition web_search_call :: "jv \<Rightarrow> bool" where
  "web_search_call toolCall =
     (truthy toolCall \<and> prop_of toolCall ''type'' = JStr ''function''
      \<and> tool_name toolCall = JStr ''web_search'')"

definition max_results_arg :: "runtime \<Rightarrow> jv \<Rightarrow> jv" where
  "max_results_arg rt toolCall =
     nullish_or (prop_of (parsed_args rt toolCall) ''max_results'') (JNum (Fin 3))"

text \<open>
  A tool call that the loop accepts, when the read of \<open>parsedArgs.query\<close> does not
  throw: a \<open>web_search\<close> call whose decoded arguments have a truthy \<open>query\<close>. The
  request that the gateway sends for it, when the limit is a number, is
  \<open>serper_request\<close>.
\<close>

definition accepted :: "runtime \<Rightarrow> jv \<Rightarrow> bool" where
  "accepted rt toolCall =
     (web_search_call toolCall \<and> truthy (prop_of (parsed_args rt toolCall) ''query''))"

definition sent_limit :: "runtime \<Rightarrow> jv \<Rightarrow> jsnum" where
  "sent_limit rt toolCall =
     (case clamp_limit rt (max_results_arg rt toolCall) of Inl e \<Rightarrow> NaN | Inr limit \<Rightarrow> limit)"

definition serper_request :: "runtime \<Rightarrow> jv \<Rightarrow> request" where
  "serper_request rt toolCall =
     SerperReq (JObj [(''q'', prop_of (parsed_args rt toolCall) ''query''),
                      (''num'', JNum (sent_limit rt toolCall))])"

section \<open>A concrete runtime and scripted worlds\<close>

text \<open>
  To run the model on concrete inputs, \<open>sample_runtime\<close> fixes the built-ins on the
  values that the examples below use. \<open>sample_parse\<close> is \<open>JSON.parse\<close> on the
  argument texts listed in \<open>SAMPLE_TEXTS\<close>; the only other text the examples parse is
  \<open>{\<close>, which is not JSON. \<open>sample_stringify\<close> is \<open>JSON.stringify\<close> on
  \<open>null\<close>, booleans, integers below \<open>10^21\<close>, strings of code units below 256,
  and arrays and objects of these with distinct keys: a property whose value is
  \<open>undefined\<close> or a function is left out, and such an element of an array is written
  \<open>null\<close>. \<open>sample_to_num\<close> is the conversion of a text to a number on the empty
  text and on texts that are no numerals, and \<open>sample_num_str\<close> is the text of an
  integer below \<open>10^21\<close> and of the non-finite numbers.
\<close>

definition ARGS_LISBON :: string where
  \<open>ARGS_LISBON = ''{'' @ [CHR 0x22] @ ''query'' @ [CHR 0x22] @ '':'' @ [CHR 0x22] @
     ''weather Lisbon today'' @ [CHR 0x22] @ ''}''\<close>

definition ARGS_NINE :: string where
  \<open>ARGS_NINE = ''{'' @ [CHR 0x22] @ ''query'' @ [CHR 0x22] @ '':'' @ [CHR 0x22] @
     ''news'' @ [CHR 0x22] @ '','' @ [CHR 0x22] @ ''max_results'' @ [CHR 0x22] @ '':9}''\<close>

definition SAMPLE_TEXTS :: "(string \<times> jv) list" where
  "SAMPLE_TEXTS =
     [(''{}'', JObj []),
      (''null'', JNull),
      (ARGS_LISBON, JObj [(''query'', JStr ''weather Lisbon today'')]),
      (ARGS_NINE, JObj [(''query'', JStr ''news''), (''max_results'', JNum (Fin 9))])]"

definition sample_parse :: "string \<Rightarrow> jv option" where
  "sample_parse text = map_of SAMPLE_TEXTS text"

fun digits :: "nat \<Rightarrow> string" where
  "digits n =
     (if n < 10 then [''0123456789'' ! n]
      else digits (n div 10) @ [''0123456789'' ! (n mod 10)])"

definition escape_char :: "char \<Rightarrow> string" where
  "escape_char c =
     (if c = CHR 0x22 then [CHR 0x5C, CHR 0x22]
      else if c = CHR 0x5C then [CHR 0x5C, CHR 0x5C]
      else if c = CHR 0x08 then [CHR 0x5C, CHR ''b'']
      else if c = CHR 0x09 then [CHR 0x5C, CHR ''t'']
      else if c = CHR 0x0A then [CHR 0x5C, CHR ''n'']
      else if c = CHR 0x0C then [CHR 0x5C, CHR ''f'']
      else if c = CHR 0x0D then [CHR 0x5C, CHR ''r'']
      else if (of_char c :: nat) < 32
      then [CHR 0x5C, CHR ''u'', CHR ''0'', CHR ''0'',
            ''0123456789abcdef'' ! (of_char c div 16), ''0123456789abcdef'' ! (of_char c mod 16)]
      else [c])"

definition quote :: "string \<Rightarrow> string" where
  "quote s = [CHR 0x22] @ concat (map escape_char s) @ [CHR 0x22]"

fun commas :: "string list \<Rightarrow> string" where
  "commas [] = []"
| "commas [x] = x"
| "commas (x # y # ys) = x @ '','' @ commas (y # ys)"

fun show_num :: "jsnum \<Rightarrow> string" where
  "show_num (Fin r) =
     (if r = of_int \<lfloor>r\<rfloor>
      then (if r < 0 then ''-'' else []) @ digits (nat \<bar>\<lfloor>r\<rfloor>\<bar>)
      else ''null'')"
| "show_num n = ''null''"

fun omitted :: "jv \<Rightarrow> bool" where
  "omitted JUndefined = True"
| "omitted (JFn f) = True"
| "omitted v = False"

fun sample_stringify :: "jv \<Rightarrow> string" where
  "sample_stringify JUndefined = ''null''"
| "sample_stringify (JFn f) = ''null''"
| "sample_stringify JNull = ''null''"
| "sample_stringify (JBool b) = (if b then ''true'' else ''false'')"
| "sample_stringify (JNum n) = show_num n"
| "sample_stringify (JStr s) = quote s"
| "sample_stringify (JArr xs) = ''['' @ commas (map sample_stringify xs) @ '']''"
| "sample_stringify (JObj kvs) =
     ''{'' @ commas (map (\<lambda>kv. quote (fst kv) @ '':'' @ sample_stringify (snd kv))
                     (filter (\<lambda>kv. \<not> omitted (snd kv)) kvs)) @ ''}''"

definition sample_to_num :: "string \<Rightarrow> jsnum" where
  "sample_to_num text = (if text = [] then Fin 0 else NaN)"

fun sample_num_str :: "jsnum \<Rightarrow> string" where
  "sample_num_str NaN = ''NaN''"
| "sample_num_str PosInf = ''Infinity''"
| "sample_num_str NegInf = ''-Infinity''"
| "sample_num_str (Fin r) = (if r < 0 then ''-'' else []) @ digits (nat \<bar>\<lfloor>r\<rfloor>\<bar>)"

definition sample_runtime :: runtime where
  "sample_runtime =
     \<lparr>json_parse = sample_parse,
      json_stringify = sample_stringify,
      to_num = sample_to_num,
      num_str = sample_num_str,
      fn_str = (\<lambda>f. ''function '' @ f @ ''() { [native code] }'')\<rparr>"

text \<open>
  A scripted world answers the call number \<open>i\<close> with the \<open>i\<close>-th reply of a list,
  whatever the request, and rejects every later call.
\<close>

definition scripted :: "reply list \<Rightarrow> world" where
  "scripted replies = (\<lambda>i rq. if i < length replies then replies ! i else NetFail)"

text \<open>
  The values of the examples: a completion of the inference backend whose message has the
  given content and no tool call, a tool call, a completion whose message carries the
  given tool calls, a message of the user, and a reply of the search provider with its
  organic results.
\<close>

definition completion :: "string \<Rightarrow> jv" where
  "completion content =
     JObj [(''choices'', JArr
       [JObj [(''message'', JObj [(''role'', JStr ''assistant''), (''content'', JStr content)])]])]"

definition tool_call :: "string \<Rightarrow> string \<Rightarrow> string \<Rightarrow> jv" where
  "tool_call ident name arguments =
     JObj [(''id'', JStr ident),
           (''type'', JStr ''function''),
           (''function'', JObj [(''name'', JStr name), (''arguments'', JStr arguments)])]"

definition tool_completion :: "jv list \<Rightarrow> jv" where
  "tool_completion toolCalls =
     JObj [(''choices'', JArr
       [JObj [(''message'', JObj
          [(''role'', JStr ''assistant''), (''content'', JNull), (''tool_calls'', JArr toolCalls)])]])]"

definition user_message :: "string \<Rightarrow> jv" where
  "user_message content = JObj [(''role'', JStr ''user''), (''content'', JStr content)]"

definition organic :: "jv list \<Rightarrow> jv" where
  "organic items = JObj [(''organic'', JArr items)]"

definition hit :: "string \<Rightarrow> string \<Rightarrow> string \<Rightarrow> jv" where
  "hit title link snippet =
     JObj [(''title'', JStr title), (''link'', JStr link), (''snippet'', JStr snippet)]"

section \<open>Properties\<close>

subsection \<open>Outbound calls, the tool loop and the turn\<close>

lemma clamp_limit_int:
  "clamp_limit rt (JNum (Fin (of_int n))) = Inr (Fin (of_int (min (max n 1) 5)))"
  by (auto simp: clamp_limit_def math_max_def math_min_def SERPER_MAX_RESULTS_def min_def max_def)

lemma ok_from_append:
  "ok_from w n (xs @ ys) = (ok_from w n xs \<and> ok_from w (n + length xs) ys)"
  by (induction xs arbitrary: n) auto

lemma ok_from_nth:
  "ok_from w n xs = (\<forall>i<length xs. \<not> call_failed (xs ! i) (w (n + i) (xs ! i)))"
proof (induction xs arbitrary: n)
  case Nil
  show ?case by simp
next
  case (Cons x xs)
  show ?case
    by (auto simp: Cons.IH less_Suc_eq_0_disj)
qed

lemma search_result:
  assumes "search w q l tr = (r, tr')"
  shows "tr' = tr @ [SerperReq (JObj [(''q'', q), (''num'', JNum l)])]"
    and "call_failed (SerperReq (JObj [(''q'', q), (''num'', JNum l)]))
           (w (length tr) (SerperReq (JObj [(''q'', q), (''num'', JNum l)]))) \<Longrightarrow> isl r"
  using assms
  by (auto simp: search_def Let_def call_failed_def
           split: reply.splits option.splits sum.splits jv.splits if_splits)

lemma runWebSearch_throw:
  "clamp_limit rt m = Inl e \<Longrightarrow> runWebSearch rt w q m tr = (Inl e, tr)"
  by (simp add: runWebSearch_def)

lemma runWebSearch_result:
  assumes "runWebSearch rt w q m tr = (r, tr')"
    and "clamp_limit rt m = Inr l"
  shows "tr' = tr @ [SerperReq (JObj [(''q'', q), (''num'', JNum l)])]"
    and "call_failed (SerperReq (JObj [(''q'', q), (''num'', JNum l)]))
           (w (length tr) (SerperReq (JObj [(''q'', q), (''num'', JNum l)])))
         \<Longrightarrow> isl r"
proof -
  obtain r0 tr0 where s: "search w q l tr = (r0, tr0)"
    by (cases "search w q l tr")
  from assms s show "tr' = tr @ [SerperReq (JObj [(''q'', q), (''num'', JNum l)])]"
    using search_result(1) [OF s]
    by (auto simp: runWebSearch_def split: sum.splits)
  assume "call_failed (SerperReq (JObj [(''q'', q), (''num'', JNum l)]))
           (w (length tr) (SerperReq (JObj [(''q'', q), (''num'', JNum l)])))"
  then have "isl r0" by (rule search_result(2) [OF s])
  with assms s show "isl r"
    by (auto simp: runWebSearch_def split: sum.splits)
qed

lemma callLocalChat_result:
  assumes "callLocalChat w p tr = (r, tr')"
  shows "tr' = tr @ [ChatReq p]"
    and "call_failed (ChatReq p) (w (length tr) (ChatReq p)) \<Longrightarrow> isl r"
  using assms
  by (auto simp: callLocalChat_def Let_def call_failed_def split: reply.splits if_splits)

lemma exec_tools_skip:
  "\<not> web_search_call tc \<Longrightarrow> exec_tools rt w (tc # tcs) tms tr = exec_tools rt w tcs tms tr"
  by (auto simp: web_search_call_def)

lemma exec_tools_throw:
  "web_search_call tc \<Longrightarrow> get_prop (parsed_args rt tc) ''query'' = Inl e \<Longrightarrow>
     exec_tools rt w (tc # tcs) tms tr = (Inl e, tr)"
  by (auto simp: web_search_call_def)

lemma exec_tools_falsy:
  "web_search_call tc \<Longrightarrow> get_prop (parsed_args rt tc) ''query'' = Inr q \<Longrightarrow> \<not> truthy q \<Longrightarrow>
     exec_tools rt w (tc # tcs) tms tr = exec_tools rt w tcs tms tr"
  by (auto simp: web_search_call_def)

lemma exec_tools_run:
  "web_search_call tc \<Longrightarrow> get_prop (parsed_args rt tc) ''query'' = Inr q \<Longrightarrow> truthy q \<Longrightarrow>
     exec_tools rt w (tc # tcs) tms tr =
       (case runWebSearch rt w q (max_results_arg rt tc) tr of
          (Inl e, tr') \<Rightarrow> (Inl e, tr')
        | (Inr result, tr') \<Rightarrow> exec_tools rt w tcs (tms @ [tool_message rt tc result]) tr')"
  by (auto simp: web_search_call_def max_results_arg_def)

declare exec_tools.simps(2) [simp del]

lemma exec_tools_trace:
  "exec_tools rt w tcs tms tr = (r, tr') \<Longrightarrow>
     \<exists>ext. tr' = tr @ ext \<and> list_all is_serper ext
       \<and> ok_from w (length tr) (if isl r then butlast ext else ext)"
proof (induction tcs arbitrary: tms tr)
  case Nil
  then show ?case by auto
next
  case (Cons tc tcs)
  show ?case
  proof (cases "web_search_call tc")
    case False
    from Cons.prems have "exec_tools rt w tcs tms tr = (r, tr')"
      unfolding exec_tools_skip [OF False] .
    then show ?thesis by (rule Cons.IH)
  next
    case True
    note acc = True
    show ?thesis
    proof (cases "get_prop (parsed_args rt tc) ''query''")
      case (Inl e)
      from Cons.prems have "r = Inl e" "tr' = tr"
        unfolding exec_tools_throw [OF acc Inl] by simp_all
      then show ?thesis by auto
    next
      case (Inr query)
      note q = Inr
      show ?thesis
      proof (cases "truthy query")
        case False
        from Cons.prems have "exec_tools rt w tcs tms tr = (r, tr')"
          unfolding exec_tools_falsy [OF acc q False] .
        then show ?thesis by (rule Cons.IH)
      next
        case True
        let ?m = "max_results_arg rt tc"
        show ?thesis
        proof (cases "clamp_limit rt ?m")
          case (Inl e)
          from Cons.prems have "r = Inl e" "tr' = tr"
            unfolding exec_tools_run [OF acc q True] runWebSearch_throw [OF Inl] by simp_all
          then show ?thesis by auto
        next
          case lim: (Inr l)
          let ?rq = "SerperReq (JObj [(''q'', query), (''num'', JNum l)])"
          obtain r1 tr1 where run: "runWebSearch rt w query ?m tr = (r1, tr1)"
            by (cases "runWebSearch rt w query ?m tr")
          have tr1: "tr1 = tr @ [?rq]" by (rule runWebSearch_result(1) [OF run lim])
          have step: "exec_tools rt w (tc # tcs) tms tr =
              (case r1 of Inl e \<Rightarrow> (Inl e, tr1)
               | Inr result \<Rightarrow> exec_tools rt w tcs (tms @ [tool_message rt tc result]) tr1)"
            by (simp add: exec_tools_run [OF acc q True] run split: sum.splits)
          show ?thesis
          proof (cases r1)
            case (Inl e)
            with step Cons.prems have "r = Inl e" "tr' = tr1" by auto
            with tr1 show ?thesis by auto
          next
            case (Inr result)
            with step Cons.prems
            have rec: "exec_tools rt w tcs (tms @ [tool_message rt tc result]) tr1 = (r, tr')"
              by auto
            from Cons.IH [OF rec] obtain ext where
              ext: "tr' = tr1 @ ext" "list_all is_serper ext"
                "ok_from w (length tr1) (if isl r then butlast ext else ext)"
              by blast
            have nf: "\<not> call_failed ?rq (w (length tr) ?rq)"
              using runWebSearch_result(2) [OF run lim] Inr by auto
            have "tr' = tr @ (?rq # ext)" using ext(1) tr1 by simp
            moreover have "list_all is_serper (?rq # ext)" using ext(2) by simp
            moreover have
              "ok_from w (length tr) (if isl r then butlast (?rq # ext) else ?rq # ext)"
              using ext(3) nf tr1 by (cases "ext = []") auto
            ultimately show ?thesis by blast
          qed
        qed
      qed
    qed
  qed
qed

lemma callLocalChat_ok:
  "w (length tr) (ChatReq p) = Reply st body \<Longrightarrow> http_ok st \<Longrightarrow>
     callLocalChat w p tr = (Inr (json_or_null body), tr @ [ChatReq p])"
  by (simp add: callLocalChat_def)

lemma turn_direct:
  assumes "spread messages = Inr msgs"
    and "w (length tr) (ChatReq (first_payload model msgs)) = Reply st body"
    and "http_ok st"
    and "tool_calls_of (message_of (json_or_null body)) = []"
  shows "turn rt w messages model tr =
           (content_of rt (message_of (json_or_null body)),
            tr @ [ChatReq (first_payload model msgs)])"
  using assms by (simp add: turn_def callLocalChat_ok)

lemma turn_tools:
  assumes "spread messages = Inr msgs"
    and "w (length tr) (ChatReq (first_payload model msgs)) = Reply st body"
    and "http_ok st"
    and "tool_calls_of (message_of (json_or_null body)) \<noteq> []"
  shows "turn rt w messages model tr =
           (case exec_tools rt w (tool_calls_of (message_of (json_or_null body))) []
                   (tr @ [ChatReq (first_payload model msgs)]) of
              (Inl e, tr2) \<Rightarrow> (Inl e, tr2)
            | (Inr toolMessages, tr2) \<Rightarrow>
                (case callLocalChat w (second_payload model msgs toolMessages) tr2 of
                   (Inl e, tr3) \<Rightarrow> (Inl e, tr3)
                 | (Inr secondResponse, tr3) \<Rightarrow>
                     (content_of rt (message_of secondResponse), tr3)))"
  using assms by (simp add: turn_def callLocalChat_ok)

lemma ok_from_butlast:
  "ok_from w n xs \<Longrightarrow> ok_from w n (butlast xs)"
  by (induction xs arbitrary: n) auto

lemma filter_chat_serper:
  "list_all is_serper ext \<Longrightarrow> filter is_chat ext = []"
  by (induction ext) (auto elim: is_serper.elims)

lemma exec_tools_undecodable:
  "\<forall>tc\<in>set tcs. decode_args rt tc = None \<Longrightarrow>
     exec_tools rt w tcs tms tr = (Inr tms, tr)"
proof (induction tcs)
  case Nil
  show ?case by simp
next
  case (Cons tc tcs)
  then have rest: "exec_tools rt w tcs tms tr = (Inr tms, tr)" by simp
  from Cons.prems have q: "get_prop (parsed_args rt tc) ''query'' = Inr (JStr '''')"
    by (simp add: parsed_args_def get_prop_def nullish_def)
  show ?case
  proof (cases "web_search_call tc")
    case True
    have "\<not> truthy (JStr '''')" by simp
    from exec_tools_falsy [OF True q this] rest show ?thesis by simp
  next
    case False
    from exec_tools_skip [OF False] rest show ?thesis by simp
  qed
qed

lemma exec_tools_messages:
  "exec_tools rt w tcs tms tr = (Inr out, tr') \<Longrightarrow>
     \<exists>new. out = tms @ new \<and> (\<forall>m\<in>set new. \<exists>tc result. m = tool_message rt tc result)"
proof (induction tcs arbitrary: tms tr)
  case Nil
  then show ?case by simp
next
  case (Cons tc tcs)
  show ?case
  proof (cases "web_search_call tc")
    case False
    from Cons.prems have "exec_tools rt w tcs tms tr = (Inr out, tr')"
      unfolding exec_tools_skip [OF False] .
    then show ?thesis by (rule Cons.IH)
  next
    case True
    note call = True
    show ?thesis
    proof (cases "get_prop (parsed_args rt tc) ''query''")
      case (Inl e)
      from Cons.prems show ?thesis
        unfolding exec_tools_throw [OF call Inl] by simp
    next
      case (Inr query)
      note q = Inr
      show ?thesis
      proof (cases "truthy query")
        case False
        from Cons.prems have "exec_tools rt w tcs tms tr = (Inr out, tr')"
          unfolding exec_tools_falsy [OF call q False] .
        then show ?thesis by (rule Cons.IH)
      next
        case True
        obtain r1 tr1 where run: "runWebSearch rt w query (max_results_arg rt tc) tr = (r1, tr1)"
          by (cases "runWebSearch rt w query (max_results_arg rt tc) tr")
        show ?thesis
        proof (cases r1)
          case (Inl e)
          with Cons.prems run show ?thesis
            unfolding exec_tools_run [OF call q True] by simp
        next
          case (Inr result)
          with Cons.prems run
          have "exec_tools rt w tcs (tms @ [tool_message rt tc result]) tr1 = (Inr out, tr')"
            unfolding exec_tools_run [OF call q True] by simp
          from Cons.IH [OF this] obtain new where
            new: "out = (tms @ [tool_message rt tc result]) @ new"
              "\<forall>m\<in>set new. \<exists>tc result. m = tool_message rt tc result"
            by blast
          have "out = tms @ (tool_message rt tc result # new)" using new(1) by simp
          moreover have "\<forall>m\<in>set (tool_message rt tc result # new).
              \<exists>tc result. m = tool_message rt tc result"
            using new(2) by auto
          ultimately show ?thesis by blast
        qed
      qed
    qed
  qed
qed

lemma turn_trace:
  "turn rt w messages model tr = (r, tr') \<Longrightarrow>
     \<exists>ext. tr' = tr @ ext \<and> ok_from w (length tr) (if isl r then butlast ext else ext)"
proof (cases "spread messages")
  case (Inl e)
  assume "turn rt w messages model tr = (r, tr')"
  with Inl have "tr' = tr" "r = Inl e" by (simp_all add: turn_def)
  then show ?thesis by simp
next
  case (Inr msgs)
  assume t: "turn rt w messages model tr = (r, tr')"
  let ?p1 = "first_payload model msgs"
  obtain r1 tr1 where c1: "callLocalChat w ?p1 tr = (r1, tr1)"
    by (cases "callLocalChat w ?p1 tr")
  have tr1: "tr1 = tr @ [ChatReq ?p1]" by (rule callLocalChat_result(1) [OF c1])
  show ?thesis
  proof (cases r1)
    case (Inl e)
    with t Inr c1 have "r = Inl e" "tr' = tr1" by (simp_all add: turn_def)
    with tr1 show ?thesis by simp
  next
    case first: (Inr firstResponse)
    have ok1: "\<not> call_failed (ChatReq ?p1) (w (length tr) (ChatReq ?p1))"
      using callLocalChat_result(2) [OF c1] first by auto
    let ?tcs = "tool_calls_of (message_of firstResponse)"
    show ?thesis
    proof (cases "?tcs = []")
      case True
      with t Inr c1 first have "tr' = tr1" by (auto simp: turn_def)
      with tr1 ok1 show ?thesis by simp
    next
      case False
      obtain r2 tr2 where e: "exec_tools rt w ?tcs [] tr1 = (r2, tr2)"
        by (cases "exec_tools rt w ?tcs [] tr1")
      from exec_tools_trace [OF e] obtain ext2 where
        ext2: "tr2 = tr1 @ ext2" "ok_from w (length tr1) (if isl r2 then butlast ext2 else ext2)"
        by blast
      show ?thesis
      proof (cases r2)
        case (Inl e2)
        with t Inr c1 first False e have "r = Inl e2" "tr' = tr2" by (simp_all add: turn_def)
        moreover have "tr2 = tr @ (ChatReq ?p1 # ext2)" using ext2(1) tr1 by simp
        moreover have "ok_from w (length tr) (butlast (ChatReq ?p1 # ext2))"
          using ext2(2) Inl ok1 tr1 by (cases "ext2 = []") auto
        ultimately show ?thesis by auto
      next
        case tools: (Inr toolMessages)
        let ?p2 = "second_payload model msgs toolMessages"
        obtain r3 tr3 where c2: "callLocalChat w ?p2 tr2 = (r3, tr3)"
          by (cases "callLocalChat w ?p2 tr2")
        have tr3: "tr3 = tr2 @ [ChatReq ?p2]" by (rule callLocalChat_result(1) [OF c2])
        have ok2: "ok_from w (length tr) (ChatReq ?p1 # ext2)"
          using ext2(2) tools ok1 tr1 by simp
        have tr3': "tr3 = tr @ ((ChatReq ?p1 # ext2) @ [ChatReq ?p2])"
          using tr3 ext2(1) tr1 by simp
        show ?thesis
        proof (cases r3)
          case (Inl e3)
          with t Inr c1 first False e tools c2 have "r = Inl e3" "tr' = tr3"
            by (simp_all add: turn_def)
          with tr3' ok2 show ?thesis by auto
        next
          case second: (Inr secondResponse)
          with t Inr c1 first False e tools c2 have "tr' = tr3"
            by (auto simp: turn_def)
          moreover have "\<not> call_failed (ChatReq ?p2) (w (length tr2) (ChatReq ?p2))"
            using callLocalChat_result(2) [OF c2] second by auto
          then have all: "ok_from w (length tr) ((ChatReq ?p1 # ext2) @ [ChatReq ?p2])"
            using ok2 ext2(1) tr1 by (simp add: ok_from_append)
          moreover have "ok_from w (length tr)
              (if isl r then butlast ((ChatReq ?p1 # ext2) @ [ChatReq ?p2])
               else (ChatReq ?p1 # ext2) @ [ChatReq ?p2])"
            using all ok_from_butlast [OF all] by simp
          ultimately show ?thesis using tr3' by blast
        qed
      qed
    qed
  qed
qed


text \<open>
  When the tool loop runs to its end, it has pushed one tool message for each accepted
  tool call and none for any other, in the order of the calls, and it has sent one request
  to the search provider for each accepted call, in the same order.
\<close>

lemma exec_tools_results:
  "exec_tools rt w tcs tms tr = (Inr out, tr') \<Longrightarrow>
     \<exists>results. length results = length (filter (accepted rt) tcs)
       \<and> out = tms @ map (\<lambda>(tc, result). tool_message rt tc result)
                       (zip (filter (accepted rt) tcs) results)
       \<and> tr' = tr @ map (serper_request rt) (filter (accepted rt) tcs)"
proof (induction tcs arbitrary: tms tr)
  case Nil
  then show ?case by simp
next
  case (Cons tc tcs)
  show ?case
  proof (cases "web_search_call tc")
    case False
    from Cons.prems have "exec_tools rt w tcs tms tr = (Inr out, tr')"
      unfolding exec_tools_skip [OF False] .
    from Cons.IH [OF this] False show ?thesis by (simp add: accepted_def)
  next
    case True
    note call = True
    show ?thesis
    proof (cases "get_prop (parsed_args rt tc) ''query''")
      case (Inl e)
      from Cons.prems show ?thesis
        unfolding exec_tools_throw [OF call Inl] by simp
    next
      case (Inr query)
      note q = Inr
      then have query: "query = prop_of (parsed_args rt tc) ''query''"
        by (simp add: get_prop_def split: if_splits)
      show ?thesis
      proof (cases "truthy query")
        case False
        from Cons.prems have "exec_tools rt w tcs tms tr = (Inr out, tr')"
          unfolding exec_tools_falsy [OF call q False] .
        from Cons.IH [OF this] False query show ?thesis by (simp add: accepted_def)
      next
        case True
        then have acc: "accepted rt tc" using call query by (simp add: accepted_def)
        obtain r1 tr1 where run: "runWebSearch rt w query (max_results_arg rt tc) tr = (r1, tr1)"
          by (cases "runWebSearch rt w query (max_results_arg rt tc) tr")
        show ?thesis
        proof (cases r1)
          case (Inl e)
          with Cons.prems run show ?thesis
            unfolding exec_tools_run [OF call q True] by simp
        next
          case (Inr result)
          have "\<exists>l. clamp_limit rt (max_results_arg rt tc) = Inr l"
          proof (cases "clamp_limit rt (max_results_arg rt tc)")
            case (Inl e)
            from run Inr show ?thesis
              unfolding runWebSearch_throw [OF Inl] by simp
          qed simp
          then obtain l where lim: "clamp_limit rt (max_results_arg rt tc) = Inr l" by blast
          have tr1: "tr1 = tr @ [serper_request rt tc]"
            using runWebSearch_result(1) [OF run lim] query lim
            by (simp add: serper_request_def sent_limit_def)
          from Inr Cons.prems run
          have "exec_tools rt w tcs (tms @ [tool_message rt tc result]) tr1 = (Inr out, tr')"
            unfolding exec_tools_run [OF call q True] by simp
          from Cons.IH [OF this] obtain results where
            rs: "length results = length (filter (accepted rt) tcs)"
              "out = (tms @ [tool_message rt tc result]) @
                 map (\<lambda>(tc, result). tool_message rt tc result)
                   (zip (filter (accepted rt) tcs) results)"
              "tr' = tr1 @ map (serper_request rt) (filter (accepted rt) tcs)"
            by blast
          have "length (result # results) = length (filter (accepted rt) (tc # tcs))"
            using rs(1) acc by simp
          moreover have "out = tms @ map (\<lambda>(tc, result). tool_message rt tc result)
                       (zip (filter (accepted rt) (tc # tcs)) (result # results))"
            using rs(2) acc by simp
          moreover have "tr' = tr @ map (serper_request rt) (filter (accepted rt) (tc # tcs))"
            using rs(3) tr1 acc by simp
          ultimately show ?thesis by blast
        qed
      qed
    qed
  qed
qed

text \<open>
  The second mapping of the results, in the adapter, changes nothing: every result of the
  gateway already has its three fields, so \<open>runWebSearch\<close> returns the results of the
  gateway as they are, whatever the length of a snippet.
\<close>

lemma nullish_or_not_nullish: "\<not> nullish b \<Longrightarrow> \<not> nullish (nullish_or a b)"
  by (simp add: nullish_or_def)

lemma nullish_or_id: "\<not> nullish a \<Longrightarrow> nullish_or a b = a"
  by (simp add: nullish_or_def)

lemma not_nullish_JStr: "\<not> nullish (JStr s)"
  by (simp add: nullish_def)

lemma enriched_serper_item:
  assumes "serper_item item = Inr r"
  shows "enriched_item r = Inr r"
proof -
  let ?t = "nullish_or (prop_of item ''title'') (JStr '''')"
  let ?u = "nullish_or (prop_of item ''link'') (nullish_or (prop_of item ''url'') (JStr ''''))"
  let ?s = "nullish_or (prop_of item ''snippet'')
              (nullish_or (prop_of item ''description'') (JStr ''''))"
  from assms have r: "r = JObj [(''title'', ?t), (''url'', ?u), (''snippet'', ?s)]"
    by (simp add: serper_item_def split: if_splits)
  have t: "\<not> nullish ?t" and u: "\<not> nullish ?u" and s: "\<not> nullish ?s"
    by (simp_all add: nullish_or_not_nullish not_nullish_JStr)
  have "\<not> nullish r" by (simp add: r nullish_def)
  moreover have "prop_of r ''title'' = ?t" "prop_of r ''link'' = JUndefined"
    "prop_of r ''url'' = ?u" "prop_of r ''snippet'' = ?s"
    by (simp_all add: r)
  moreover have "nullish JUndefined" by (simp add: nullish_def)
  ultimately have "enriched_item r = Inr (JObj [(''title'', ?t), (''url'', ?u), (''snippet'', ?s)])"
    using t u s by (simp add: enriched_item_def nullish_or_id) (simp add: nullish_or_def)
  then show ?thesis by (simp add: r)
qed

lemma enriched_serper_items:
  "map_result serper_item items = Inr rs \<Longrightarrow> map_result enriched_item rs = Inr rs"
proof (induction items arbitrary: rs)
  case Nil
  then show ?case by simp
next
  case (Cons item items)
  from Cons.prems obtain r rs' where
    parts: "serper_item item = Inr r" "map_result serper_item items = Inr rs'" "rs = r # rs'"
    by (auto split: sum.splits)
  from enriched_serper_item [OF parts(1)] Cons.IH [OF parts(2)] parts(3)
  show ?case by simp
qed

lemma search_results_enriched:
  assumes "search w q l tr = (Inr results, tr')"
  shows "map_result enriched_item results = Inr results"
proof -
  let ?rq = "SerperReq (JObj [(''q'', q), (''num'', JNum l)])"
  show ?thesis
  proof (cases "w (length tr) ?rq")
    case NetFail
    with assms show ?thesis by (simp add: search_def)
  next
    case (Reply st body)
    show ?thesis
    proof (cases "http_ok st")
      case False
      with assms Reply show ?thesis by (simp add: search_def)
    next
      case True
      show ?thesis
      proof (cases body)
        case None
        with assms Reply True show ?thesis by (simp add: search_def)
      next
        case (Some data)
        show ?thesis
        proof (cases "get_prop data ''organic''")
          case (Inl e)
          with assms Reply True Some show ?thesis by (simp add: search_def)
        next
          case (Inr organic)
          show ?thesis
          proof (cases "nullish_or organic (JArr [])")
            case (JArr items)
            with assms Reply True Some Inr
            have "map_result serper_item (slice0 items l) = Inr results"
              by (simp add: search_def)
            then show ?thesis by (rule enriched_serper_items)
          qed (use assms Reply True Some Inr in \<open>simp_all add: search_def\<close>)
        qed
      qed
    qed
  qed
qed

lemma runWebSearch_passes_results:
  "fst (runWebSearch rt w q m tr) =
     (case clamp_limit rt m of
        Inl e \<Rightarrow> Inl e
      | Inr limit \<Rightarrow>
          (case fst (search w q limit tr) of
             Inl e \<Rightarrow> Inl e
           | Inr results \<Rightarrow> Inr (JObj [(''query'', q), (''results'', JArr results)])))"
proof (cases "clamp_limit rt m")
  case (Inl e)
  then show ?thesis by (simp add: runWebSearch_throw)
next
  case lim: (Inr limit)
  obtain r tr' where s: "search w q limit tr = (r, tr')"
    by (cases "search w q limit tr")
  show ?thesis
  proof (cases r)
    case (Inl e)
    with s lim show ?thesis by (simp add: runWebSearch_def)
  next
    case (Inr results)
    with s have "map_result enriched_item results = Inr results"
      by (auto dest: search_results_enriched)
    with s Inr lim show ?thesis by (simp add: runWebSearch_def)
  qed
qed

subsection \<open>Running the model on concrete inputs\<close>

lemma sample_parse_simps:
  "json_parse sample_runtime ''{'' = None"
  "json_parse sample_runtime ''{}'' = Some (JObj [])"
  "json_parse sample_runtime ''null'' = Some JNull"
  "json_parse sample_runtime ARGS_LISBON = Some (JObj [(''query'', JStr ''weather Lisbon today'')])"
  "json_parse sample_runtime ARGS_NINE =
     Some (JObj [(''query'', JStr ''news''), (''max_results'', JNum (Fin 9))])"
  by (simp_all add: sample_runtime_def sample_parse_def SAMPLE_TEXTS_def ARGS_LISBON_def
        ARGS_NINE_def)

lemma tool_call_simps:
  "truthy (tool_call i n a)"
  "prop_of (tool_call i n a) ''type'' = JStr ''function''"
  "prop_of (tool_call i n a) ''id'' = JStr i"
  "tool_name (tool_call i n a) = JStr n"
  "raw_args (tool_call i n a) = JStr a"
  by (simp_all add: tool_call_def tool_name_def raw_args_def opt_prop_def nullish_def
        nullish_or_def)

lemma web_search_call_tool_call:
  "web_search_call (tool_call i n a) = (n = ''web_search'')"
  by (simp add: web_search_call_def tool_call_simps)

lemma decode_args_tool_call:
  "decode_args rt (tool_call i n a) = json_parse rt a"
  by (simp add: decode_args_def tool_call_simps)

lemma parsed_args_tool_call:
  "parsed_args rt (tool_call i n a) =
     (case json_parse rt a of None \<Rightarrow> JObj [(''query'', JStr '''')] | Some v \<Rightarrow> v)"
  by (simp add: parsed_args_def decode_args_tool_call)

text \<open>
  With the concrete runtime, the data frame of the answer \<open>Paris\<close> is the line
  \<open>data: {"choices":[{"delta":{"content":"Paris"}}]}\<close> followed by a blank line.
\<close>

lemma sample_data_frame:
  \<open>data_frame sample_runtime ''Paris'' =
     ''data: {'' @ [CHR 0x22] @ ''choices'' @ [CHR 0x22] @ '':[{'' @ [CHR 0x22] @ ''delta'' @
     [CHR 0x22] @ '':{'' @ [CHR 0x22] @ ''content'' @ [CHR 0x22] @ '':'' @ [CHR 0x22] @
     ''Paris'' @ [CHR 0x22] @ ''}}]}\<newline>'' @ ''\<newline>''\<close>
  by (simp add: data_frame_def sample_runtime_def quote_def escape_char_def)

lemmas run_defs =
  turn_def callLocalChat_def scripted_def http_ok_def json_or_null_def message_of_def
  tool_calls_of_def content_of_def opt_prop_def nullish_def nullish_or_def get_prop_def
  completion_def tool_completion_def request_messages_def request_model_def

lemma system_messages_differ: "SECOND_SYSTEM_MESSAGE \<noteq> SYSTEM_MESSAGE"
  by (simp add: SYSTEM_MESSAGE_def SECOND_SYSTEM_MESSAGE_def SYSTEM_PROMPT_def
        SECOND_SYSTEM_PROMPT_def)

lemma tool_message_props:
  "prop_of (tool_message rt tc result) ''role'' = JStr ''tool''"
  "prop_of (tool_message rt tc result) ''tool_calls'' = JUndefined"
  by (simp_all add: tool_message_def)

lemma system_message_props:
  "prop_of SYSTEM_MESSAGE ''role'' = JStr ''system''"
  "prop_of SECOND_SYSTEM_MESSAGE ''tool_calls'' = JUndefined"
  by (simp_all add: SYSTEM_MESSAGE_def SECOND_SYSTEM_MESSAGE_def)

lemma tool_calls_of_nonempty:
  "tool_calls_of m \<noteq> [] \<Longrightarrow> prop_of m ''tool_calls'' \<noteq> JUndefined"
  by (auto simp: tool_calls_of_def)

lemma content_of_string:
  "prop_of message ''content'' = JStr s \<Longrightarrow> content_of rt message = Inr s"
  by (simp add: content_of_def nullish_or_def nullish_def)


text \<open>
  A content that cannot be converted to a string ends the turn: with the content
  \<open>{"toString": 0}\<close> in a reply without tool calls, the client receives the error
  response.
\<close>

lemma unconvertible_content_aborts:
  "POST sample_runtime
     (scripted [Reply 200 (Some (JObj [(''choices'', JArr
        [JObj [(''message'', JObj
           [(''content'', JObj [(''toString'', JNum (Fin 0))])])]])]))])
     (Some (JObj [(''messages'', JArr [user_message ''hello''])])) =
   (error_response sample_runtime,
    [ChatReq (first_payload DEFAULT_MODEL [user_message ''hello''])])"
  by (simp add: POST_def run_defs)

subsection \<open>Snippets are not truncated\<close>

text \<open>
  C1. The adapter has the helper \<open>truncate\<close> and the budget \<open>SEARCH_MAX_CHARS\<close>, but
  \<open>runWebSearch\<close> does not apply them: a snippet of 601 code units comes out of the
  adapter as it came from the provider, while \<open>truncate\<close> with the budget would give
  its first 600 code units followed by three dots.
\<close>

theorem long_snippet_not_truncated:
  "fst (runWebSearch sample_runtime
          (scripted [Reply 200 (Some (organic
             [hit ''Lisbon weather'' ''http://w.example'' (replicate 601 CHR ''a'')]))])
          (JStr ''weather Lisbon today'') (JNum (Fin 3)) []) =
     Inr (JObj [(''query'', JStr ''weather Lisbon today''),
                (''results'', JArr
                   [JObj [(''title'', JStr ''Lisbon weather''),
                          (''url'', JStr ''http://w.example''),
                          (''snippet'', JStr (replicate 601 CHR ''a''))]])])
   \<and> truncate (replicate 601 CHR ''a'') SEARCH_MAX_CHARS = replicate 600 CHR ''a'' @ ''...''
   \<and> replicate 601 CHR ''a'' \<noteq> replicate 600 CHR ''a'' @ ''...''"
proof -
  have lim: "clamp_limit sample_runtime (JNum (Fin 3)) = Inr (Fin 3)"
    using clamp_limit_int [of sample_runtime 3] by simp
  have run: "fst (runWebSearch sample_runtime
          (scripted [Reply 200 (Some (organic
             [hit ''Lisbon weather'' ''http://w.example'' (replicate 601 CHR ''a'')]))])
          (JStr ''weather Lisbon today'') (JNum (Fin 3)) []) =
     Inr (JObj [(''query'', JStr ''weather Lisbon today''),
                (''results'', JArr
                   [JObj [(''title'', JStr ''Lisbon weather''),
                          (''url'', JStr ''http://w.example''),
                          (''snippet'', JStr (replicate 601 CHR ''a''))]])])"
    by (simp add: runWebSearch_def lim search_def scripted_def http_ok_def organic_def hit_def
          get_prop_def nullish_def nullish_or_def slice0_def serper_item_def enriched_item_def)
  have "take 600 (replicate 601 CHR ''a'') = replicate 600 CHR ''a''"
    by simp
  then have cut: "truncate (replicate 601 CHR ''a'') SEARCH_MAX_CHARS =
      replicate 600 CHR ''a'' @ ''...''"
    by (simp add: truncate_def SEARCH_MAX_CHARS_def slice0_def)
  have "length (replicate 601 CHR ''a'') \<noteq> length (replicate 600 CHR ''a'' @ ''...'')"
    by simp
  then have diff: "replicate 601 CHR ''a'' \<noteq> replicate 600 CHR ''a'' @ ''...''"
    by metis
  from run cut diff show ?thesis by blast
qed

subsection \<open>When the second call is made\<close>

text \<open>
  The claim C2 as stated fails: the first reply asks for a tool that the loop does not
  know, no search is executed, and the inference backend is called a second time, whose
  reply is the final answer.
\<close>

theorem second_call_without_executed_tool:
  "turn sample_runtime
     (scripted [Reply 200 (Some (tool_completion [tool_call ''c1'' ''get_time'' ''{}''])),
                Reply 200 (Some (completion ''It is noon.''))])
     (JArr [user_message ''what time is it?'']) DEFAULT_MODEL [] =
   (Inr ''It is noon.'',
    [ChatReq (first_payload DEFAULT_MODEL [user_message ''what time is it?'']),
     ChatReq (second_payload DEFAULT_MODEL [user_message ''what time is it?''] [])])"
  by (simp add: run_defs exec_tools_skip web_search_call_tool_call)

text \<open>
  C2, as the code has it. After a successful first call, the second call of the inference
  backend is made exactly when the first reply carries at least one tool call and the tool
  loop runs to its end, whether or not the loop executed a search; with no tool call
  there is one call of the backend and the result of the turn is the conversion of the
  content of the first reply to a string: the content itself when it is a string.
\<close>

theorem second_call_iff_tool_calls:
  assumes "spread messages = Inr msgs"
    and "w 0 (ChatReq (first_payload model msgs)) = Reply st body"
    and "http_ok st"
  shows "length (filter is_chat (snd (turn rt w messages model []))) =
           (if tool_calls_of (message_of (json_or_null body)) \<noteq> []
               \<and> \<not> isl (fst (exec_tools rt w (tool_calls_of (message_of (json_or_null body))) []
                               [ChatReq (first_payload model msgs)]))
            then 2 else 1)
       \<and> (tool_calls_of (message_of (json_or_null body)) = [] \<longrightarrow>
            fst (turn rt w messages model []) = content_of rt (message_of (json_or_null body))
            \<and> (\<forall>s. prop_of (message_of (json_or_null body)) ''content'' = JStr s \<longrightarrow>
                  fst (turn rt w messages model []) = Inr s))"
proof (cases "tool_calls_of (message_of (json_or_null body)) = []")
  case True
  have w0: "w (length ([]::trace)) (ChatReq (first_payload model msgs)) = Reply st body"
    using assms(2) by simp
  from turn_direct [where w = w and tr = "[]" and rt = rt, OF assms(1) w0 assms(3) True] True
  show ?thesis by (simp add: content_of_string)
next
  case False
  let ?p1 = "first_payload model msgs"
  let ?tcs = "tool_calls_of (message_of (json_or_null body))"
  have w0: "w (length ([]::trace)) (ChatReq ?p1) = Reply st body"
    using assms(2) by simp
  note t = turn_tools [where w = w and tr = "[]" and rt = rt, OF assms(1) w0 assms(3) False]
  obtain r2 tr2 where e: "exec_tools rt w ?tcs [] [ChatReq ?p1] = (r2, tr2)"
    by (cases "exec_tools rt w ?tcs [] [ChatReq ?p1]")
  from exec_tools_trace [OF e] obtain ext where
    ext: "tr2 = [ChatReq ?p1] @ ext" "list_all is_serper ext"
    by blast
  have chat2: "filter is_chat tr2 = [ChatReq ?p1]"
    using ext filter_chat_serper [OF ext(2)] by simp
  show ?thesis
  proof (cases r2)
    case (Inl e2)
    with t e have "snd (turn rt w messages model []) = tr2" by simp
    with chat2 Inl e False show ?thesis by simp
  next
    case (Inr toolMessages)
    obtain r3 tr3 where
      c2: "callLocalChat w (second_payload model msgs toolMessages) tr2 = (r3, tr3)"
      by (cases "callLocalChat w (second_payload model msgs toolMessages) tr2")
    have "tr3 = tr2 @ [ChatReq (second_payload model msgs toolMessages)]"
      by (rule callLocalChat_result(1) [OF c2])
    moreover have "snd (turn rt w messages model []) = tr3"
      using t e Inr c2 by (simp split: sum.splits)
    ultimately have "length (filter is_chat (snd (turn rt w messages model []))) = 2"
      using chat2 by simp
    with Inr e False show ?thesis by simp
  qed
qed

theorem second_call_iff_tool_calls_witness:
  "length (filter is_chat (snd (turn sample_runtime
     (scripted [Reply 200 (Some (tool_completion [tool_call ''c1'' ''web_search'' ''{''])),
                Reply 200 (Some (completion ''I could not search.''))])
     (JArr [user_message ''weather in Lisbon today?'']) DEFAULT_MODEL []))) = 2"
proof -
  let ?tc = "tool_call ''c1'' ''web_search'' ''{''"
  let ?w = "scripted [Reply 200 (Some (tool_completion [?tc])),
                      Reply 200 (Some (completion ''I could not search.''))]"
  let ?msgs = "[user_message ''weather in Lisbon today?'']"
  have a: "spread (JArr ?msgs) = Inr ?msgs" by simp
  have b: "?w 0 (ChatReq (first_payload DEFAULT_MODEL ?msgs)) =
             Reply 200 (Some (tool_completion [?tc]))"
    by (simp add: scripted_def)
  have c: "http_ok 200" by (simp add: http_ok_def)
  have d: "tool_calls_of (message_of (json_or_null (Some (tool_completion [?tc])))) = [?tc]"
    by (simp add: run_defs)
  have e: "exec_tools sample_runtime ?w [?tc] [] [ChatReq (first_payload DEFAULT_MODEL ?msgs)] =
             (Inr [], [ChatReq (first_payload DEFAULT_MODEL ?msgs)])"
    by (rule exec_tools_undecodable) (simp add: decode_args_tool_call sample_parse_simps)
  from second_call_iff_tool_calls [where w = "?w" and rt = sample_runtime, OF a b c]
  show ?thesis by (simp add: d e)
qed

subsection \<open>Arguments that fail to decode\<close>



subsection \<open>Arguments that decode to null\<close>

text \<open>
  C4. A \<open>web_search\<close> call whose arguments are the text \<open>null\<close> decodes to
  \<open>null\<close>; reading \<open>query\<close> from it throws inside the loop, outside the
  \<open>try\<close> around \<open>JSON.parse\<close>. The call is not dropped: the turn stops there, the
  accepted call that follows it gets no result, no second call is made, and the client
  receives the error response.
\<close>

theorem null_arguments_abort_turn:
  "exec_tools sample_runtime (scripted [])
     [tool_call ''c1'' ''web_search'' ''null'', tool_call ''c2'' ''web_search'' ARGS_LISBON]
     [] [] = (Inl TypeError, [])
   \<and> POST sample_runtime
       (scripted [Reply 200 (Some (tool_completion
          [tool_call ''c1'' ''web_search'' ''null'',
           tool_call ''c2'' ''web_search'' ARGS_LISBON]))])
       (Some (JObj [(''messages'', JArr [user_message ''weather in Lisbon today?''])])) =
     (error_response sample_runtime,
      [ChatReq (first_payload DEFAULT_MODEL [user_message ''weather in Lisbon today?''])])"
proof -
  let ?tcs = "[tool_call ''c1'' ''web_search'' ''null'',
               tool_call ''c2'' ''web_search'' ARGS_LISBON]"
  have call: "web_search_call (tool_call ''c1'' ''web_search'' ''null'')"
    by (simp add: web_search_call_tool_call)
  have q: "get_prop (parsed_args sample_runtime (tool_call ''c1'' ''web_search'' ''null''))
             ''query'' = Inl TypeError"
    by (simp add: parsed_args_tool_call sample_parse_simps get_prop_def nullish_def)
  have e: "exec_tools sample_runtime w ?tcs [] tr = (Inl TypeError, tr)" for w tr
    by (rule exec_tools_throw [OF call q])
  have "POST sample_runtime
       (scripted [Reply 200 (Some (tool_completion ?tcs))])
       (Some (JObj [(''messages'', JArr [user_message ''weather in Lisbon today?''])])) =
     (error_response sample_runtime,
      [ChatReq (first_payload DEFAULT_MODEL [user_message ''weather in Lisbon today?''])])"
    by (simp add: POST_def run_defs e)
  with e show ?thesis by blast
qed

subsection \<open>A reply without tool calls\<close>



subsection \<open>The messages of the second call\<close>

text \<open>
  The claim C6 as stated fails in its last part: the client conversation is passed on
  unchanged, so a conversation that itself holds the first system message brings it into
  the message list of the second call.
\<close>

theorem client_supplied_system_message:
  "snd (turn sample_runtime
     (scripted [Reply 200 (Some (tool_completion [tool_call ''c1'' ''web_search'' ''{''])),
                Reply 200 (Some (completion ''Done.''))])
     (JArr [SYSTEM_MESSAGE, user_message ''hello'']) DEFAULT_MODEL []) =
   [ChatReq (first_payload DEFAULT_MODEL [SYSTEM_MESSAGE, user_message ''hello'']),
    ChatReq (JObj [(''model'', DEFAULT_MODEL),
                   (''messages'',
                      JArr [SECOND_SYSTEM_MESSAGE, SYSTEM_MESSAGE, user_message ''hello'']),
                   (''tool_choice'', JStr ''none'')])]"
  by (simp add: run_defs exec_tools_falsy web_search_call_tool_call parsed_args_tool_call
        sample_parse_simps second_payload_def second_messages_def)

text \<open>
  C6, as the code has it. In a turn that reaches the second call, the message list of
  that call is the second system message, then the client conversation unchanged, then
  the tool messages in the order the loop produced them, and it is the last call of the
  turn. What the orchestrator puts around the conversation is neither the first system
  message nor the assistant message of the first reply: these occur in the list only where
  the client conversation holds them.
\<close>

theorem second_phase_messages:
  assumes "spread messages = Inr msgs"
    and "w 0 (ChatReq (first_payload model msgs)) = Reply st body"
    and "http_ok st"
    and "tool_calls_of (message_of (json_or_null body)) \<noteq> []"
    and "exec_tools rt w (tool_calls_of (message_of (json_or_null body))) []
           [ChatReq (first_payload model msgs)] = (Inr toolMessages, tr2)"
  shows "snd (turn rt w messages model []) =
           tr2 @ [ChatReq (JObj [(''model'', model),
                                 (''messages'',
                                    JArr (SECOND_SYSTEM_MESSAGE # msgs @ toolMessages)),
                                 (''tool_choice'', JStr ''none'')])]
       \<and> filter is_chat tr2 = [ChatReq (first_payload model msgs)]
       \<and> SECOND_SYSTEM_MESSAGE \<noteq> SYSTEM_MESSAGE
       \<and> SECOND_SYSTEM_MESSAGE \<noteq> message_of (json_or_null body)
       \<and> SYSTEM_MESSAGE \<notin> set toolMessages
       \<and> message_of (json_or_null body) \<notin> set toolMessages"
proof -
  let ?p1 = "first_payload model msgs"
  let ?fm = "message_of (json_or_null body)"
  have w0: "w (length ([]::trace)) (ChatReq ?p1) = Reply st body"
    using assms(2) by simp
  obtain r3 tr3 where
    c2: "callLocalChat w (second_payload model msgs toolMessages) tr2 = (r3, tr3)"
    by (cases "callLocalChat w (second_payload model msgs toolMessages) tr2")
  have tr3: "tr3 = tr2 @ [ChatReq (second_payload model msgs toolMessages)]"
    by (rule callLocalChat_result(1) [OF c2])
  have "snd (turn rt w messages model []) = tr3"
    using turn_tools [where w = w and tr = "[]" and rt = rt, OF assms(1) w0 assms(3) assms(4)]
      assms(5) c2
    by (simp split: sum.splits)
  with tr3 have sent: "snd (turn rt w messages model []) =
           tr2 @ [ChatReq (JObj [(''model'', model),
                                 (''messages'',
                                    JArr (SECOND_SYSTEM_MESSAGE # msgs @ toolMessages)),
                                 (''tool_choice'', JStr ''none'')])]"
    by (simp add: second_payload_def second_messages_def)
  from exec_tools_trace [OF assms(5)] obtain ext where
    ext: "tr2 = [ChatReq ?p1] @ ext" "list_all is_serper ext"
    by blast
  have chat: "filter is_chat tr2 = [ChatReq ?p1]"
    using ext filter_chat_serper [OF ext(2)] by simp
  from exec_tools_messages [OF assms(5)] have
    made: "\<forall>m\<in>set toolMessages. \<exists>tc result. m = tool_message rt tc result"
    by simp
  have fm: "prop_of ?fm ''tool_calls'' \<noteq> JUndefined"
    by (rule tool_calls_of_nonempty [OF assms(4)])
  have no_system: "SYSTEM_MESSAGE \<notin> set toolMessages"
  proof
    assume "SYSTEM_MESSAGE \<in> set toolMessages"
    with made obtain tc result where "SYSTEM_MESSAGE = tool_message rt tc result" by blast
    then have "prop_of SYSTEM_MESSAGE ''role'' = prop_of (tool_message rt tc result) ''role''"
      by simp
    then show False by (simp add: tool_message_props system_message_props)
  qed
  have no_assistant: "?fm \<notin> set toolMessages"
  proof
    assume "?fm \<in> set toolMessages"
    with made obtain tc result where "?fm = tool_message rt tc result" by blast
    then have "prop_of ?fm ''tool_calls'' = prop_of (tool_message rt tc result) ''tool_calls''"
      by simp
    with fm show False by (simp add: tool_message_props)
  qed
  have not_second: "SECOND_SYSTEM_MESSAGE \<noteq> ?fm"
  proof
    assume "SECOND_SYSTEM_MESSAGE = ?fm"
    then have "prop_of SECOND_SYSTEM_MESSAGE ''tool_calls'' = prop_of ?fm ''tool_calls''"
      by simp
    with fm show False by (simp add: system_message_props)
  qed
  from sent chat system_messages_differ not_second no_system no_assistant
  show ?thesis by blast
qed

theorem second_phase_messages_witness:
  "snd (turn sample_runtime
     (scripted [Reply 200 (Some (tool_completion [tool_call ''c1'' ''web_search'' ARGS_LISBON])),
                Reply 200 (Some (organic [hit ''Lisbon weather'' ''http://w.example'' ''Sunny, 24 C''])),
                Reply 200 (Some (completion ''Sunny (http://w.example).''))])
     (JArr [user_message ''weather in Lisbon today?'']) DEFAULT_MODEL []) =
   [ChatReq (first_payload DEFAULT_MODEL [user_message ''weather in Lisbon today?'']),
    SerperReq (JObj [(''q'', JStr ''weather Lisbon today''), (''num'', JNum (Fin 3))])]
   @ [ChatReq (JObj [(''model'', DEFAULT_MODEL),
        (''messages'',
           JArr (SECOND_SYSTEM_MESSAGE # [user_message ''weather in Lisbon today?''] @
             [JObj [(''role'', JStr ''tool''),
                    (''tool_call_id'', JStr ''c1''),
                    (''name'', JStr ''web_search''),
                    (''content'', JStr (json_stringify sample_runtime
                       (JObj [(''query'', JStr ''weather Lisbon today''),
                              (''results'', JArr
                                 [JObj [(''title'', JStr ''Lisbon weather''),
                                        (''url'', JStr ''http://w.example''),
                                        (''snippet'', JStr ''Sunny, 24 C'')]])])))]])),
        (''tool_choice'', JStr ''none'')])]"
proof -
  let ?tc = "tool_call ''c1'' ''web_search'' ARGS_LISBON"
  let ?w = "scripted [Reply 200 (Some (tool_completion [?tc])),
                Reply 200 (Some (organic [hit ''Lisbon weather'' ''http://w.example'' ''Sunny, 24 C''])),
                Reply 200 (Some (completion ''Sunny (http://w.example).''))]"
  let ?msgs = "[user_message ''weather in Lisbon today?'']"
  let ?p1 = "first_payload DEFAULT_MODEL ?msgs"
  let ?result = "JObj [(''query'', JStr ''weather Lisbon today''),
                       (''results'', JArr
                          [JObj [(''title'', JStr ''Lisbon weather''),
                                 (''url'', JStr ''http://w.example''),
                                 (''snippet'', JStr ''Sunny, 24 C'')]])]"
  let ?tm = "JObj [(''role'', JStr ''tool''),
                   (''tool_call_id'', JStr ''c1''),
                   (''name'', JStr ''web_search''),
                   (''content'', JStr (json_stringify sample_runtime ?result))]"
  have a: "spread (JArr ?msgs) = Inr ?msgs" by simp
  have b: "?w 0 (ChatReq ?p1) = Reply 200 (Some (tool_completion [?tc]))"
    by (simp add: scripted_def)
  have c: "http_ok 200" by (simp add: http_ok_def)
  have tcs: "tool_calls_of (message_of (json_or_null (Some (tool_completion [?tc])))) = [?tc]"
    by (simp add: run_defs)
  have d: "tool_calls_of (message_of (json_or_null (Some (tool_completion [?tc])))) \<noteq> []"
    by (simp add: tcs)
  have call: "web_search_call ?tc" by (simp add: web_search_call_tool_call)
  have q: "get_prop (parsed_args sample_runtime ?tc) ''query'' = Inr (JStr ''weather Lisbon today'')"
    by (simp add: parsed_args_tool_call sample_parse_simps get_prop_def nullish_def)
  have t: "truthy (JStr ''weather Lisbon today'')" by simp
  have m: "max_results_arg sample_runtime ?tc = JNum (Fin 3)"
    by (simp add: max_results_arg_def parsed_args_tool_call sample_parse_simps nullish_or_def
          nullish_def)
  have lim: "clamp_limit sample_runtime (JNum (Fin 3)) = Inr (Fin 3)"
    using clamp_limit_int [of sample_runtime 3] by simp
  have run: "runWebSearch sample_runtime ?w (JStr ''weather Lisbon today'') (JNum (Fin 3)) [ChatReq ?p1] =
      (Inr ?result,
       [ChatReq ?p1, SerperReq (JObj [(''q'', JStr ''weather Lisbon today''), (''num'', JNum (Fin 3))])])"
    by (simp add: runWebSearch_def lim search_def scripted_def http_ok_def organic_def hit_def
          get_prop_def nullish_def nullish_or_def slice0_def serper_item_def enriched_item_def)
  have e: "exec_tools sample_runtime ?w
             (tool_calls_of (message_of (json_or_null (Some (tool_completion [?tc]))))) []
             [ChatReq ?p1] =
           (Inr [?tm],
            [ChatReq ?p1,
             SerperReq (JObj [(''q'', JStr ''weather Lisbon today''), (''num'', JNum (Fin 3))])])"
    by (simp add: tcs exec_tools_run [OF call q t] m run tool_message_def tool_call_simps)
  from second_phase_messages [where w = "?w" and rt = sample_runtime, OF a b c d e]
  show ?thesis by blast
qed

subsection \<open>The frames of the stream\<close>

text \<open>
  C7. For every final answer the encoder enqueues, when the text is not empty, exactly
  one data frame, whose body is the serialisation of
  \<open>{choices: [{delta: {content: text}}]}\<close> with the whole text; in every case the last
  chunk is the frame \<open>data: [DONE]\<close> followed by a blank line, the stream is then
  closed, and a closed stream accepts no further chunk.
\<close>

theorem stream_frames:
  "\<exists>c. start rt finalContent (Controller [] False) = Inr c
     \<and> chunks c =
         (if finalContent = [] then [''data: [DONE]\<newline>\<newline>'']
          else [''data: '' @
                json_stringify rt
                  (JObj [(''choices'',
                     JArr [JObj [(''delta'', JObj [(''content'', JStr finalContent)])]])])
                @ ''\<newline>\<newline>'',
                ''data: [DONE]\<newline>\<newline>''])
     \<and> closed c \<and> (\<forall>d. enqueue d c = Inl TypeError)"
proof (cases "finalContent = []")
  case True
  then have "start rt finalContent (Controller [] False) =
      Inr (Controller [''data: [DONE]\<newline>\<newline>''] True)"
    by (simp add: start_def enqueue_def close_def DONE_FRAME_def)
  with True show ?thesis by (simp add: enqueue_def)
next
  case False
  then have "start rt finalContent (Controller [] False) =
      Inr (Controller [data_frame rt finalContent, ''data: [DONE]\<newline>\<newline>''] True)"
    by (simp add: start_def enqueue_def close_def DONE_FRAME_def)
  with False show ?thesis by (simp add: enqueue_def data_frame_def)
qed

theorem stream_frames_witness:
  "\<exists>c. start sample_runtime ''Paris'' (Controller [] False) = Inr c
     \<and> chunks c =
         [''data: '' @
          json_stringify sample_runtime
            (JObj [(''choices'', JArr [JObj [(''delta'', JObj [(''content'', JStr ''Paris'')])]])])
          @ ''\<newline>\<newline>'',
          ''data: [DONE]\<newline>\<newline>'']
     \<and> closed c \<and> (\<forall>d. enqueue d c = Inl TypeError)"
  using stream_frames [of sample_runtime "''Paris''"] by simp

subsection \<open>The number of results asked for\<close>

text \<open>
  C8. For a tool call that the loop accepts, the request sent to the search provider
  asks for 3 results when the decoded arguments have no \<open>max_results\<close>, and for the
  integer \<open>n\<close> clamped into 1..5 when \<open>max_results\<close> is the integer \<open>n\<close>.
\<close>

theorem max_results_default_and_clamp:
  assumes "web_search_call tc"
    and "get_prop (parsed_args rt tc) ''query'' = Inr q"
    and "truthy q"
  shows "(prop_of (parsed_args rt tc) ''max_results'' = JUndefined \<longrightarrow>
           (\<exists>ext. snd (exec_tools rt w (tc # tcs) tms tr) =
              tr @ SerperReq (JObj [(''q'', q), (''num'', JNum (Fin 3))]) # ext))
       \<and> (\<forall>n. prop_of (parsed_args rt tc) ''max_results'' = JNum (Fin (of_int n)) \<longrightarrow>
           (\<exists>ext. snd (exec_tools rt w (tc # tcs) tms tr) =
              tr @ SerperReq (JObj [(''q'', q), (''num'', JNum (Fin (of_int (min (max n 1) 5))))])
                # ext))"
proof -
  let ?m = "max_results_arg rt tc"
  have sent: "\<exists>ext. snd (exec_tools rt w (tc # tcs) tms tr) =
      tr @ SerperReq (JObj [(''q'', q), (''num'', JNum l)]) # ext"
    if lim: "clamp_limit rt ?m = Inr l" for l
  proof -
    let ?rq = "SerperReq (JObj [(''q'', q), (''num'', JNum l)])"
    obtain r1 tr1 where run: "runWebSearch rt w q ?m tr = (r1, tr1)"
      by (cases "runWebSearch rt w q ?m tr")
    have tr1: "tr1 = tr @ [?rq]" by (rule runWebSearch_result(1) [OF run lim])
    show ?thesis
    proof (cases r1)
      case (Inl e)
      then show ?thesis
        by (simp add: exec_tools_run [OF assms] run tr1)
    next
      case (Inr result)
      obtain r2 tr2 where
        rest: "exec_tools rt w tcs (tms @ [tool_message rt tc result]) tr1 = (r2, tr2)"
        by (cases "exec_tools rt w tcs (tms @ [tool_message rt tc result]) tr1")
      from exec_tools_trace [OF rest] obtain ext where ext: "tr2 = tr1 @ ext" by blast
      have "snd (exec_tools rt w (tc # tcs) tms tr) = tr2"
        by (simp add: exec_tools_run [OF assms] run Inr rest)
      with ext tr1 show ?thesis by simp
    qed
  qed
  have absent: "prop_of (parsed_args rt tc) ''max_results'' = JUndefined \<Longrightarrow>
      clamp_limit rt ?m = Inr (Fin 3)"
    by (simp add: max_results_arg_def nullish_or_def nullish_def clamp_limit_def math_max_def
          math_min_def SERPER_MAX_RESULTS_def)
  have given: "prop_of (parsed_args rt tc) ''max_results'' = JNum (Fin (of_int n)) \<Longrightarrow>
      clamp_limit rt ?m = Inr (Fin (of_int (min (max n 1) 5)))" for n
    by (simp add: max_results_arg_def nullish_or_def nullish_def clamp_limit_int)
  from sent absent given show ?thesis by blast
qed

theorem max_results_default_and_clamp_witness:
  "(\<exists>ext. snd (exec_tools sample_runtime (scripted [])
              [tool_call ''c1'' ''web_search'' ARGS_LISBON] [] []) =
          [] @ SerperReq (JObj [(''q'', JStr ''weather Lisbon today''), (''num'', JNum (Fin 3))])
            # ext)
   \<and> (\<exists>ext. snd (exec_tools sample_runtime (scripted [])
              [tool_call ''c2'' ''web_search'' ARGS_NINE] [] []) =
          [] @ SerperReq (JObj [(''q'', JStr ''news''), (''num'', JNum (Fin 5))]) # ext)"
proof
  have a: "web_search_call (tool_call ''c1'' ''web_search'' ARGS_LISBON)"
    by (simp add: web_search_call_tool_call)
  have b: "get_prop (parsed_args sample_runtime (tool_call ''c1'' ''web_search'' ARGS_LISBON))
             ''query'' = Inr (JStr ''weather Lisbon today'')"
    by (simp add: parsed_args_tool_call sample_parse_simps get_prop_def nullish_def)
  have c: "truthy (JStr ''weather Lisbon today'')" by simp
  have d: "prop_of (parsed_args sample_runtime (tool_call ''c1'' ''web_search'' ARGS_LISBON))
             ''max_results'' = JUndefined"
    by (simp add: parsed_args_tool_call sample_parse_simps)
  from max_results_default_and_clamp [OF a b c, of "scripted []" "[]" "[]" "[]"] d
  show "\<exists>ext. snd (exec_tools sample_runtime (scripted [])
              [tool_call ''c1'' ''web_search'' ARGS_LISBON] [] []) =
          [] @ SerperReq (JObj [(''q'', JStr ''weather Lisbon today''), (''num'', JNum (Fin 3))])
            # ext"
    by blast
next
  have a: "web_search_call (tool_call ''c2'' ''web_search'' ARGS_NINE)"
    by (simp add: web_search_call_tool_call)
  have b: "get_prop (parsed_args sample_runtime (tool_call ''c2'' ''web_search'' ARGS_NINE))
             ''query'' = Inr (JStr ''news'')"
    by (simp add: parsed_args_tool_call sample_parse_simps get_prop_def nullish_def)
  have c: "truthy (JStr ''news'')" by simp
  have d: "prop_of (parsed_args sample_runtime (tool_call ''c2'' ''web_search'' ARGS_NINE))
             ''max_results'' = JNum (Fin (of_int 9))"
    by (simp add: parsed_args_tool_call sample_parse_simps)
  have five: "(of_int (min (max 9 1) 5) :: rat) = 5" by simp
  from max_results_default_and_clamp [OF a b c, of "scripted []" "[]" "[]" "[]"] d
  have "\<exists>ext. snd (exec_tools sample_runtime (scripted [])
              [tool_call ''c2'' ''web_search'' ARGS_NINE] [] []) =
          [] @ SerperReq (JObj [(''q'', JStr ''news''),
                                (''num'', JNum (Fin (of_int (min (max 9 1) 5))))]) # ext"
    by blast
  then show "\<exists>ext. snd (exec_tools sample_runtime (scripted [])
              [tool_call ''c2'' ''web_search'' ARGS_NINE] [] []) =
          [] @ SerperReq (JObj [(''q'', JStr ''news''), (''num'', JNum (Fin 5))]) # ext"
    unfolding five .
qed

subsection \<open>Failed outbound calls\<close>

text \<open>
  The claim C9 as stated fails for a malformed body: a reply of the inference backend
  with a success status and a body that is not JSON is read as \<open>null\<close>, and the client
  receives the stream of an empty answer with status 200.
\<close>

theorem malformed_backend_body_swallowed:
  "POST sample_runtime (scripted [Reply 200 None])
      (Some (JObj [(''messages'', JArr [user_message ''hello''])])) =
     (StreamResponse 200
        [(''Content-Type'', ''text/event-stream; charset=utf-8''),
         (''Cache-Control'', ''no-cache''),
         (''Connection'', ''keep-alive'')]
        (Inr (Controller [''data: [DONE]\<newline>\<newline>''] True)),
      [ChatReq (first_payload DEFAULT_MODEL [user_message ''hello''])])"
  by (simp add: POST_def run_defs stream_response_def start_def enqueue_def close_def
        DONE_FRAME_def)

text \<open>
  C9, as the code has it. If any outbound call of a turn fails (the fetch is rejected or
  times out, the status is not a success, or, for the search provider, the body is not
  JSON), that call is the last call of the turn, and the client receives the JSON error
  body with status 500 and the generic message; no stream is built.
\<close>

theorem failed_call_aborts_turn:
  assumes "POST rt w request = (response, tr)"
    and "i < length tr"
    and "call_failed (tr ! i) (w i (tr ! i))"
  shows "response =
           JsonResponse 500 [(''Content-Type'', ''application/json'')]
             (json_stringify rt (JObj [(''error'', JStr ''Failed to call local chat backend'')]))
       \<and> Suc i = length tr"
proof -
  obtain r tr' where
    t: "turn rt w (request_messages request) (request_model request) [] = (r, tr')"
    by (cases "turn rt w (request_messages request) (request_model request) []")
  from turn_trace [OF t] have
    ok: "ok_from w 0 (if isl r then butlast tr' else tr')"
    by simp
  from assms(1) t have tr: "tr = tr'"
    by (simp add: POST_def split: sum.splits)
  show ?thesis
  proof (cases r)
    case (Inr finalContent)
    with ok have "ok_from w 0 tr" using tr by simp
    with assms(2,3) show ?thesis by (simp add: ok_from_nth)
  next
    case (Inl e)
    with assms(1) t have resp: "response = error_response rt"
      by (simp add: POST_def)
    from Inl ok tr have okb: "ok_from w 0 (butlast tr)" by simp
    have "\<not> i < length (butlast tr)"
    proof
      assume less: "i < length (butlast tr)"
      with okb have "\<not> call_failed (butlast tr ! i) (w i (butlast tr ! i))"
        by (simp add: ok_from_nth)
      with less assms(3) show False by (simp add: nth_butlast)
    qed
    with assms(2) have "Suc i = length tr" by simp
    with resp show ?thesis by (simp add: error_response_def)
  qed
qed

theorem failed_call_aborts_turn_witness:
  "fst (POST sample_runtime
          (scripted
             [Reply 200 (Some (tool_completion [tool_call ''c1'' ''web_search'' ARGS_LISBON])),
              NetFail])
          (Some (JObj [(''messages'', JArr [user_message ''weather in Lisbon today?''])]))) =
     JsonResponse 500 [(''Content-Type'', ''application/json'')]
       (json_stringify sample_runtime
          (JObj [(''error'', JStr ''Failed to call local chat backend'')]))
   \<and> Suc 1 =
     length (snd (POST sample_runtime
          (scripted
             [Reply 200 (Some (tool_completion [tool_call ''c1'' ''web_search'' ARGS_LISBON])),
              NetFail])
          (Some (JObj [(''messages'', JArr [user_message ''weather in Lisbon today?''])]))))"
proof -
  let ?tc = "tool_call ''c1'' ''web_search'' ARGS_LISBON"
  let ?w = "scripted [Reply 200 (Some (tool_completion [?tc])), NetFail]"
  let ?request = "Some (JObj [(''messages'', JArr [user_message ''weather in Lisbon today?''])])"
  let ?p1 = "first_payload DEFAULT_MODEL [user_message ''weather in Lisbon today?'']"
  let ?rq = "SerperReq (JObj [(''q'', JStr ''weather Lisbon today''), (''num'', JNum (Fin 3))])"
  have call: "web_search_call ?tc" by (simp add: web_search_call_tool_call)
  have q: "get_prop (parsed_args sample_runtime ?tc) ''query'' = Inr (JStr ''weather Lisbon today'')"
    by (simp add: parsed_args_tool_call sample_parse_simps get_prop_def nullish_def)
  have t: "truthy (JStr ''weather Lisbon today'')" by simp
  have m: "max_results_arg sample_runtime ?tc = JNum (Fin 3)"
    by (simp add: max_results_arg_def parsed_args_tool_call sample_parse_simps nullish_or_def
          nullish_def)
  have lim: "clamp_limit sample_runtime (JNum (Fin 3)) = Inr (Fin 3)"
    using clamp_limit_int [of sample_runtime 3] by simp
  have run: "runWebSearch sample_runtime ?w (JStr ''weather Lisbon today'') (JNum (Fin 3))
               [ChatReq ?p1] = (Inl FetchError, [ChatReq ?p1, ?rq])"
    by (simp add: runWebSearch_def lim search_def scripted_def)
  have e: "exec_tools sample_runtime ?w [?tc] [] [ChatReq ?p1] =
             (Inl FetchError, [ChatReq ?p1, ?rq])"
    by (simp add: exec_tools_run [OF call q t] m run)
  have a: "spread (JArr [user_message ''weather in Lisbon today?'']) =
             Inr [user_message ''weather in Lisbon today?'']"
    by simp
  have b: "?w (length ([]::trace)) (ChatReq ?p1) = Reply 200 (Some (tool_completion [?tc]))"
    by (simp add: scripted_def)
  have c: "http_ok 200" by (simp add: http_ok_def)
  have tcs: "tool_calls_of (message_of (json_or_null (Some (tool_completion [?tc])))) = [?tc]"
    by (simp add: run_defs)
  have d: "tool_calls_of (message_of (json_or_null (Some (tool_completion [?tc])))) \<noteq> []"
    by (simp add: tcs)
  have "turn sample_runtime ?w (JArr [user_message ''weather in Lisbon today?''])
          DEFAULT_MODEL [] = (Inl FetchError, [ChatReq ?p1, ?rq])"
    using turn_tools [where w = "?w" and tr = "[]" and rt = sample_runtime, OF a b c d]
    by (simp add: tcs e)
  moreover have "request_messages ?request = JArr [user_message ''weather in Lisbon today?'']"
    by (simp add: request_messages_def json_or_null_def opt_prop_def nullish_def nullish_or_def)
  moreover have "request_model ?request = DEFAULT_MODEL"
    by (simp add: request_model_def json_or_null_def opt_prop_def nullish_def nullish_or_def)
  ultimately
  have p: "POST sample_runtime ?w ?request = (error_response sample_runtime, [ChatReq ?p1, ?rq])"
    by (simp add: POST_def)
  have i: "1 < length [ChatReq ?p1, ?rq]" by simp
  have f: "call_failed ([ChatReq ?p1, ?rq] ! 1) (?w 1 ([ChatReq ?p1, ?rq] ! 1))"
    by (simp add: call_failed_def scripted_def)
  from failed_call_aborts_turn [where w = "?w", OF p i f] show ?thesis
    by (simp add: p)
qed

subsection \<open>Requests without a conversation\<close>




end
